theory Spec2Isabelle
  imports Complex_Main "HOL-Library.AList"
begin

section \<open>Values and errors\<close>

text \<open>
  A Python number is a real number. In \<open>format_ticks\<close> the quotients and the
  comparisons are those of the reals (the literal \<open>0.1\<close> is one tenth). In the outlier
  count of the box renderer, where the rounding of an operation decides the result for
  everyday columns, each operation is rounded to binary64 by \<open>fl\<close>. Infinities, NaN
  and overflow are not modelled.
  A Python \<open>str\<close> is a \<open>string\<close> in which every \<open>char\<close> stands for one code point
  (code points below 256 suffice for every literal of the source).
  Every exception the source can raise is a value of \<open>error\<close>, and a function that can
  raise returns \<open>error + 'a\<close>.
\<close>

datatype error =
    KeyError string
  | ValueError string
  | AttributeError string
  | TypeError string

section \<open>Formatting a number with no decimals: the format spec \<open>.0f\<close>\<close>

definition digits :: string where
  "digits = ''0123456789''"

function show_nat :: "nat \<Rightarrow> string" where
  "show_nat n = (if n < 10 then [digits ! n] else show_nat (n div 10) @ [digits ! (n mod 10)])"
  by pat_completeness auto
termination
  by (relation "measure id") auto

declare show_nat.simps [simp del]

text \<open>
  \<open>f'{x:.0f}'\<close> rounds to the nearest integer, a tie going to the even neighbour
  (\<open>f'{1.5:.0f}' = '2'\<close>, \<open>f'{2.5:.0f}' = '2'\<close>), and keeps the sign of a negative
  number also when it rounds to zero (\<open>f'{-0.4:.0f}' = '-0'\<close>).
\<close>

definition round_half_even :: "real \<Rightarrow> int" where
  "round_half_even x =
     (let f = \<lfloor>x\<rfloor>; d = x - of_int f
      in if d < 1 / 2 then f else if d > 1 / 2 then f + 1 else if even f then f else f + 1)"

definition fmt0 :: "real \<Rightarrow> string" where
  "fmt0 x = (if x < 0 then ''-'' else []) @ show_nat (nat \<bar>round_half_even x\<bar>)"

section \<open>Binary floating point\<close>

text \<open>
  \<open>binade\<close> finds the exponent \<open>e\<close> of the unit in the last place of \<open>x\<close>, the
  one with \<open>2^52 <= |x| / 2^e < 2^53\<close>, by halving or doubling \<open>x\<close>; the fuel given
  in \<open>fl\<close> covers more than the range of binary64.
\<close>

fun binade :: "nat \<Rightarrow> real \<Rightarrow> int \<Rightarrow> int" where
  "binade 0 x e = e"
| "binade (Suc fuel) x e =
     (if 2 ^ 53 \<le> \<bar>x\<bar> then binade fuel (x / 2) (e + 1)
      else if \<bar>x\<bar> < 2 ^ 52 then binade fuel (x * 2) (e - 1)
      else e)"

definition pow2 :: "int \<Rightarrow> real" where
  "pow2 e = (if 0 \<le> e then 2 ^ nat e else 1 / 2 ^ nat (- e))"

text \<open>
  \<open>fl x\<close> is \<open>x\<close> rounded to binary64: the nearest number with a significand of 53
  bits, a tie going to the even significand; below the normal range the numbers are
  \<open>2^-1074\<close> apart. The result of an operation \<open>a op b\<close> on two binary64 numbers is
  \<open>fl (a op b)\<close>.
\<close>

definition fl :: "real \<Rightarrow> real" where
  "fl x =
     (if x = 0 then 0
      else (let e = max (binade 2200 x 0) (- 1074)
            in of_int (round_half_even (x / pow2 e)) * pow2 e))"

section \<open>supply_format.py\<close>

subsection \<open>format_ticks\<close>

text \<open>The dictionary literal \<open>scale_dict\<close>, in insertion order.\<close>

definition scale_dict :: "(string \<times> real) list" where
  "scale_dict =
     [(''mil'', 1000), (''MM'', 1000000), (''B'', 1000000000), (''T'', 1000000000000)]"

text \<open>The loop's test \<open>0.1 <= max / unidade < 999\<close>.\<close>

definition ratio_test :: "real \<Rightarrow> real \<Rightarrow> bool" where
  "ratio_test mx unidade \<longleftrightarrow> 1 / 10 \<le> mx / unidade \<and> mx / unidade < 999"

text \<open>\<open>list.index\<close>: the position of the first occurrence, \<open>None\<close> where Python raises.\<close>

fun list_index :: "'a list \<Rightarrow> 'a \<Rightarrow> nat option" where
  "list_index [] x = None"
| "list_index (y # ys) x = (if y = x then Some 0 else map_option Suc (list_index ys x))"

text \<open>
  The body of the \<open>for scale, unidade in scale_dict.items()\<close> loop, over the items that
  are left; falling out of the loop reaches the final \<open>return f'{value:.0f}'\<close>.
\<close>

fun format_loop :: "real \<Rightarrow> real \<Rightarrow> (string \<times> real) list \<Rightarrow> error + string" where
  "format_loop value mx [] = Inr (fmt0 value)"
| "format_loop value mx ((scale, unidade) # rest) =
     (if ratio_test mx unidade then
        (case map_of scale_dict scale of
           None \<Rightarrow> Inl (KeyError scale)
         | Some u \<Rightarrow>
             (let formatted_value = value / u in
              if formatted_value < 1 then
                (let prev_scales = map fst scale_dict in
                 case list_index prev_scales scale of
                   None \<Rightarrow> Inl (ValueError scale)
                 | Some i \<Rightarrow>
                     (let index = int i - 1;
                          prev_scale = (if index > 0 then prev_scales ! nat index else [])
                      in Inr (fmt0 value @ prev_scale)))
              else Inr (fmt0 formatted_value @ scale)))
      else format_loop value mx rest)"

text \<open>
  \<open>format_ticks(value, max=None, _=None)\<close>: an omitted \<open>max\<close> is \<open>None\<close>; the third
  parameter may be any object.
\<close>

definition format_ticks :: "real \<Rightarrow> real option \<Rightarrow> 'a \<Rightarrow> error + string" where
  "format_ticks value mx ignored =
     (let mx = (case mx of None \<Rightarrow> value | Some m \<Rightarrow> m)
      in if value = 0 then Inr (fmt0 value) else format_loop value mx scale_dict)"

subsection \<open>truncate_label\<close>

text \<open>The slice \<open>xs[:n]\<close>: a negative \<open>n\<close> counts from the end.\<close>

definition slice_to :: "'a list \<Rightarrow> int \<Rightarrow> 'a list" where
  "slice_to xs n = (if n < 0 then take (nat (int (length xs) + n)) xs else take (nat n) xs)"

definition truncate_label :: "string \<Rightarrow> int \<Rightarrow> string" where
  "truncate_label label len =
     (if int (length label) > len then slice_to label len @ ''...'' else label)"

text \<open>The call with \<open>length\<close> omitted.\<close>

definition truncate_label_default :: "string \<Rightarrow> string" where
  "truncate_label_default label = truncate_label label 32"

section \<open>my_style_classes.py\<close>

subsection \<open>Python values\<close>

text \<open>
  The dataset is a table (a pandas \<open>DataFrame\<close>): its columns by label, in order.
\<close>

type_synonym frame = "(string \<times> real list) list"

text \<open>
  The values of the plotting options: what JSON can hold, and a dataset, which a caller
  passes in an override. A \<open>dict\<close> is an association list in insertion order;
  \<open>AList.update\<close> is the assignment \<open>d[k] = v\<close>, which keeps the place of a key
  that is there and puts a new key last.
\<close>

datatype pyval =
    PNone
  | PBool bool
  | PNum real
  | PStr string
  | PList "pyval list"
  | PDict "(string \<times> pyval) list"
  | PFrame "(string \<times> real list) list"

type_synonym pydict = "(string \<times> pyval) list"

text \<open>
  Modelled from the spec: the preset file \<open>styles/my_styles.json\<close> is not among the
  sources. Its top-level keys are chart-type names, and each value maps a section name
  to a mapping of plotting options. The parsed file is a parameter of the model.
\<close>

type_synonym styles_file = "(string \<times> (string \<times> pydict) list) list"

text \<open>
  An instance is its \<open>__dict__\<close>. An attribute is either the private field
  \<open>__type_style\<close>, a \<open>str\<close>, or a section, a \<open>dict\<close>. Inside the class body
  the name \<open>__type_style\<close> is mangled to \<open>_My_styles__type_style\<close>.
\<close>

datatype attr = Type_style string | Section pydict

type_synonym obj = "(string \<times> attr) list"

text \<open>
  The caller's overrides, the \<open>**kwargs\<close> of the constructors: a mapping for each
  section named, as the spec has them.
\<close>

type_synonym overrides = "(string \<times> pydict) list"

definition type_style_attr :: string where
  "type_style_attr = ''_My_styles__type_style''"

definition and_then :: "error + 'a \<Rightarrow> ('a \<Rightarrow> error + 'b) \<Rightarrow> error + 'b" where
  "and_then m f = (case m of Inl e \<Rightarrow> Inl e | Inr x \<Rightarrow> f x)"

definition setattr :: "obj \<Rightarrow> string \<Rightarrow> attr \<Rightarrow> obj" where
  "setattr self name v = AList.update name v self"

definition getattr :: "obj \<Rightarrow> string \<Rightarrow> error + attr" where
  "getattr self name =
     (case map_of self name of None \<Rightarrow> Inl (AttributeError name) | Some v \<Rightarrow> Inr v)"

text \<open>\<open>hasattr(self, name)\<close> for a name that the classes do not define themselves.\<close>

definition hasattr :: "obj \<Rightarrow> string \<Rightarrow> bool" where
  "hasattr self name \<longleftrightarrow> name \<in> set (map fst self)"

text \<open>\<open>a[key]\<close> for an attribute value \<open>a\<close> and a \<open>str\<close> key.\<close>

definition subscript :: "attr \<Rightarrow> string \<Rightarrow> error + pyval" where
  "subscript a key =
     (case a of
        Type_style s \<Rightarrow> Inl (TypeError ''string indices must be integers'')
      | Section d \<Rightarrow> (case map_of d key of None \<Rightarrow> Inl (KeyError key) | Some v \<Rightarrow> Inr v))"

text \<open>The truth value of an attribute value: an empty \<open>dict\<close> or \<open>str\<close> is false.\<close>

definition truthy :: "attr \<Rightarrow> bool" where
  "truthy a = (case a of Type_style s \<Rightarrow> s \<noteq> [] | Section d \<Rightarrow> d \<noteq> [])"

text \<open>\<open>**a\<close> in a call: the argument after \<open>**\<close> must be a mapping.\<close>

definition kw_unpack :: "attr \<Rightarrow> error + pydict" where
  "kw_unpack a =
     (case a of
        Type_style s \<Rightarrow> Inl (TypeError ''argument after ** must be a mapping'')
      | Section d \<Rightarrow> Inr d)"

text \<open>
  \<open>hasattr(a, name)\<close> for an attribute value: the attributes of a \<open>dict\<close> or of a
  \<open>str\<close> are the methods of its class, never its keys. The names with a double
  underscore are left out; the source asks for \<open>'palette'\<close> only.
\<close>

definition dict_attribute_names :: "string list" where
  "dict_attribute_names =
     [''clear'', ''copy'', ''fromkeys'', ''get'', ''items'', ''keys'', ''pop'', ''popitem'',
      ''setdefault'', ''update'', ''values'']"

definition str_attribute_names :: "string list" where
  "str_attribute_names =
     [''capitalize'', ''casefold'', ''center'', ''count'', ''encode'', ''endswith'',
      ''expandtabs'', ''find'', ''format'', ''format_map'', ''index'', ''isalnum'', ''isalpha'',
      ''isascii'', ''isdecimal'', ''isdigit'', ''isidentifier'', ''islower'', ''isnumeric'',
      ''isprintable'', ''isspace'', ''istitle'', ''isupper'', ''join'', ''ljust'', ''lower'',
      ''lstrip'', ''maketrans'', ''partition'', ''removeprefix'', ''removesuffix'', ''replace'',
      ''rfind'', ''rindex'', ''rjust'', ''rpartition'', ''rsplit'', ''rstrip'', ''split'',
      ''splitlines'', ''startswith'', ''strip'', ''swapcase'', ''title'', ''translate'',
      ''upper'', ''zfill'']"

definition value_hasattr :: "attr \<Rightarrow> string \<Rightarrow> bool" where
  "value_hasattr a name =
     (case a of
        Type_style s \<Rightarrow> name \<in> set str_attribute_names
      | Section d \<Rightarrow> name \<in> set dict_attribute_names)"

text \<open>\<open>d.update(other)\<close> for a mapping \<open>other\<close>: one assignment for each of its items.\<close>

definition dict_update :: "pydict \<Rightarrow> pydict \<Rightarrow> pydict" where
  "dict_update d other = fold (\<lambda>(k, v) acc. AList.update k v acc) other d"

subsection \<open>My_styles\<close>

text \<open>The loop of \<open>read_styles\<close>: \<open>setattr(self, chave, valor)\<close> for each section.\<close>

definition load_sections :: "(string \<times> pydict) list \<Rightarrow> obj \<Rightarrow> obj" where
  "load_sections sections self =
     fold (\<lambda>(chave, valor) self. setattr self chave (Section valor)) sections self"

text \<open>
  \<open>read_styles\<close>: the parsed file is the parameter \<open>estilo\<close>; a chart type that the
  file does not have raises \<open>KeyError\<close>. The key \<open>self.__type_style\<close> is read once,
  before the loop.
\<close>

definition read_styles :: "styles_file \<Rightarrow> obj \<Rightarrow> error + obj" where
  "read_styles estilo self =
     (case getattr self type_style_attr of
        Inl e \<Rightarrow> Inl e
      | Inr (Section d) \<Rightarrow> Inl (TypeError ''unhashable type: dict'')
      | Inr (Type_style t) \<Rightarrow>
          (case map_of estilo t of
             None \<Rightarrow> Inl (KeyError t)
           | Some sections \<Rightarrow> Inr (load_sections sections self)))"

text \<open>
  \<open>update_style_for_dict\<close>: the test is \<open>chave in self.__dict__\<close>, and
  \<open>getattr(self, chave).update(valor)\<close> changes the section in place; a \<open>str\<close> has
  no method \<open>update\<close>.
\<close>

fun update_style_for_dict :: "obj \<Rightarrow> overrides \<Rightarrow> error + obj" where
  "update_style_for_dict self [] = Inr self"
| "update_style_for_dict self ((chave, valor) # kwargs) =
     (if chave \<in> set (map fst self) then
        (case getattr self chave of
           Inl e \<Rightarrow> Inl e
         | Inr (Type_style s) \<Rightarrow> Inl (AttributeError ''update'')
         | Inr (Section d) \<Rightarrow>
             update_style_for_dict (setattr self chave (Section (dict_update d valor))) kwargs)
      else update_style_for_dict self kwargs)"

definition My_styles_init :: "styles_file \<Rightarrow> string \<Rightarrow> overrides \<Rightarrow> error + obj" where
  "My_styles_init estilo type_style kwargs =
     (let self = setattr [] type_style_attr (Type_style type_style)
      in and_then (read_styles estilo self) (\<lambda>self. update_style_for_dict self kwargs))"

text \<open>
  \<open>super().__init__(type_style=..., **kwargs)\<close> in the constructor of a renderer: the
  renderer takes any keyword, and a keyword \<open>type_style\<close> among them is given twice
  to \<open>My_styles.__init__\<close>, a \<open>TypeError\<close>.
\<close>

definition super_init :: "styles_file \<Rightarrow> string \<Rightarrow> overrides \<Rightarrow> error + obj" where
  "super_init estilo type_style kwargs =
     (if ''type_style'' \<in> set (map fst kwargs)
      then Inl (TypeError ''got multiple values for keyword argument'')
      else My_styles_init estilo type_style kwargs)"

subsection \<open>The calls to the plotting library\<close>

text \<open>
  seaborn and matplotlib are outside the sources. A render is modelled by the calls it
  makes, in order, each with its arguments; what the library does with them is not
  modelled. A render that raises returns the calls made until then, and the error.
  The type \<open>'m\<close> is that of a correlation matrix.
\<close>

datatype 'm call =
    Sns_reset_defaults
  | Sns_set pydict
  | Plt_figure pydict
  | Plt_title pydict
  | Sns_heatmap 'm pyval pyval pydict
  | Sns_set_palette pyval
  | Plt_show

type_synonym 'm render = "'m call list \<times> error option"

subsection \<open>pre_make\<close>

text \<open>The argument of \<open>sns.set\<close>: \<open>**self.estilo if hasattr(self, 'estilo') and self.estilo else {}\<close>.\<close>

definition set_arguments :: "obj \<Rightarrow> error + pydict" where
  "set_arguments self =
     (if hasattr self ''estilo'' then
        and_then (getattr self ''estilo'')
          (\<lambda>estilo. if truthy estilo then kw_unpack estilo else Inr [])
      else Inr [])"

text \<open>
  The argument of \<open>sns.set_palette\<close>:
  \<open>self.estilo['palette'] if hasattr(self.estilo, 'palette') else {}\<close>.
\<close>

definition palette_argument :: "obj \<Rightarrow> error + pyval" where
  "palette_argument self =
     and_then (getattr self ''estilo'')
       (\<lambda>estilo. if value_hasattr estilo ''palette'' then subscript estilo ''palette''
                 else Inr (PDict []))"

text \<open>The closure that \<open>pre_make(func)\<close> returns.\<close>

definition pre_make :: "(obj \<Rightarrow> 'm render) \<Rightarrow> obj \<Rightarrow> 'm render" where
  "pre_make func self =
     (let calls = [Sns_reset_defaults] in
      case set_arguments self of
        Inl e \<Rightarrow> (calls, Some e)
      | Inr estilo \<Rightarrow>
     (let calls = calls @ [Sns_set estilo] in
      case and_then (getattr self ''tamanho'') kw_unpack of
        Inl e \<Rightarrow> (calls, Some e)
      | Inr tamanho \<Rightarrow>
     (let calls = calls @ [Plt_figure tamanho] in
      case and_then (getattr self ''titulo'') kw_unpack of
        Inl e \<Rightarrow> (calls, Some e)
      | Inr titulo \<Rightarrow>
     (let calls = calls @ [Plt_title titulo] in
      case func self of
        (drawn, Some e) \<Rightarrow> (calls @ drawn, Some e)
      | (drawn, None) \<Rightarrow>
     (let calls = calls @ drawn in
      case palette_argument self of
        Inl e \<Rightarrow> (calls, Some e)
      | Inr palette \<Rightarrow> (calls @ [Sns_set_palette palette, Plt_show], None))))))"

subsection \<open>decorator_filter_kw\<close>

text \<open>
  The closure that \<open>decorator_filter_kw(my_list)(func)\<close> returns; it never calls
  \<open>func\<close>. A \<open>str\<close> has no method \<open>items\<close>.
\<close>

definition decorator_filter_kw :: "string list \<Rightarrow> (obj \<Rightarrow> 'a) \<Rightarrow> obj \<Rightarrow> error + pydict" where
  "decorator_filter_kw my_list func self =
     (case getattr self ''grafico'' of
        Inl e \<Rightarrow> Inl e
      | Inr (Type_style s) \<Rightarrow> Inl (AttributeError ''items'')
      | Inr (Section grafico) \<Rightarrow>
          Inr (fold (\<lambda>(key, v) filter_kwargs.
                       if key \<notin> set my_list then AList.update key v filter_kwargs
                       else filter_kwargs)
                 grafico []))"

subsection \<open>My_headmap\<close>

definition My_headmap_init :: "styles_file \<Rightarrow> overrides \<Rightarrow> error + obj" where
  "My_headmap_init estilo kwargs = super_init estilo ''heatmap'' kwargs"

definition My_headmap_filter_kwargs :: "obj \<Rightarrow> error + pydict" where
  "My_headmap_filter_kwargs = decorator_filter_kw [''data'', ''x'', ''y''] (\<lambda>self. PNone)"

text \<open>
  The body of \<open>My_headmap.make\<close>. The correlation of a table and the rounding of a matrix
  are pandas' and are parameters, \<open>corr\<close> and \<open>round_to\<close>; the dataset has to be a
  table (any other value has no \<open>corr\<close> to call). The call of \<open>sns.heatmap\<close> names
  \<open>data\<close>, \<open>xticklabels\<close> and \<open>yticklabels\<close>, so one of these names among the
  keywords unpacked after them is a \<open>TypeError\<close>.
\<close>

definition heatmap_draw ::
    "(frame \<Rightarrow> 'm) \<Rightarrow> ('m \<Rightarrow> int \<Rightarrow> 'm) \<Rightarrow> obj \<Rightarrow> error + 'm call" where
  "heatmap_draw corr round_to self =
     and_then (getattr self ''grafico'') (\<lambda>grafico.
     and_then (subscript grafico ''data'') (\<lambda>data.
       case data of
         PFrame df \<Rightarrow>
           (let correlation_matrix = round_to (corr df) 2 in
            and_then (subscript grafico ''x'') (\<lambda>x.
            and_then (subscript grafico ''y'') (\<lambda>y.
            and_then (My_headmap_filter_kwargs self) (\<lambda>kw.
              if list_ex (\<lambda>k. k \<in> set [''data'', ''xticklabels'', ''yticklabels'']) (map fst kw)
              then Inl (TypeError ''got multiple values for keyword argument'')
              else Inr (Sns_heatmap correlation_matrix x y kw)))))
       | _ \<Rightarrow> Inl (AttributeError ''corr'')))"

definition My_headmap_make ::
    "(frame \<Rightarrow> 'm) \<Rightarrow> ('m \<Rightarrow> int \<Rightarrow> 'm) \<Rightarrow> obj \<Rightarrow> 'm render" where
  "My_headmap_make corr round_to =
     pre_make (\<lambda>self. case heatmap_draw corr round_to self of
                         Inl e \<Rightarrow> ([], Some e)
                       | Inr c \<Rightarrow> ([c], None))"

subsection \<open>My_boxplot\<close>

text \<open>
  The expression \<open>self.grafico["data"][self.grafico["y"]]\<close>: the column of the dataset
  that \<open>y\<close> names. The dataset has to be a table and \<open>y\<close> a column label, a
  \<open>str\<close>; for any other value the model raises \<open>TypeError\<close>.
\<close>

definition y_column :: "obj \<Rightarrow> error + real list" where
  "y_column self =
     and_then (getattr self ''grafico'') (\<lambda>grafico.
     and_then (subscript grafico ''data'') (\<lambda>data.
     and_then (subscript grafico ''y'') (\<lambda>y.
       case (data, y) of
         (PFrame df, PStr col) \<Rightarrow>
           (case map_of df col of None \<Rightarrow> Inl (KeyError col) | Some ys \<Rightarrow> Inr ys)
       | _ \<Rightarrow> Inl (TypeError ''not a column of a table''))))"

text \<open>
  \<open>quantidade_outliers\<close>. The quantile of a column is pandas' and is the parameter
  \<open>quantile\<close>; the subtraction, the products and the sum are operations on binary64
  numbers, each rounded; the comparisons are exact; \<open>sum(outliers)\<close> counts the
  \<open>True\<close> entries.
\<close>

definition quantidade_outliers :: "(real list \<Rightarrow> real \<Rightarrow> real) \<Rightarrow> obj \<Rightarrow> error + nat" where
  "quantidade_outliers quantile self =
     and_then (y_column self) (\<lambda>ys.
       (let Q1 = quantile ys (25 / 100);
            Q3 = quantile ys (75 / 100);
            IQR = fl (Q3 - Q1);
            lower_bound = fl (Q1 - fl (15 / 10 * IQR));
            upper_bound = fl (Q3 + fl (15 / 10 * IQR));
            outliers = map (\<lambda>v. v < lower_bound \<or> v > upper_bound) ys
        in Inr (length (filter (\<lambda>b. b) outliers))))"

text \<open>
  The f-string appended to the title: a newline, the words \<open>Numero de Outliers:\<close> with
  U+00FA for the \<open>u\<close> of the first word, and the count in decimal.
\<close>

definition outliers_text :: "nat \<Rightarrow> string" where
  "outliers_text n = [CHR 0x0A] @ ''N'' @ [CHR 0xFA] @ ''mero de Outliers:'' @ show_nat n"

text \<open>
  \<open>My_boxplot.__init__\<close>: the left operand \<open>self.titulo['label']\<close> is evaluated first,
  then the count, then the concatenation, which needs a \<open>str\<close>; the assignment
  changes the title section in place.
\<close>

definition My_boxplot_init ::
    "(real list \<Rightarrow> real \<Rightarrow> real) \<Rightarrow> styles_file \<Rightarrow> overrides \<Rightarrow> error + obj" where
  "My_boxplot_init quantile estilo kwargs =
     and_then (super_init estilo ''boxplot'' kwargs) (\<lambda>self.
     and_then (getattr self ''titulo'') (\<lambda>titulo.
     and_then (subscript titulo ''label'') (\<lambda>label.
     and_then (quantidade_outliers quantile self) (\<lambda>n.
       case (titulo, label) of
         (Section t, PStr l) \<Rightarrow>
           Inr (setattr self ''titulo''
                  (Section (AList.update ''label'' (PStr (l @ outliers_text n)) t)))
       | _ \<Rightarrow> Inl (TypeError ''can only concatenate str'')))))"

text \<open>
  pandas' \<open>Series.quantile\<close> with its default, linear interpolation, for a column that
  is not empty: the value at position \<open>q * (n - 1)\<close> of the sorted column, interpolated
  between its two neighbours. At a whole position, as in every example below, it is the
  element at that position, with no arithmetic on it.
\<close>

definition linear_quantile :: "real list \<Rightarrow> real \<Rightarrow> real" where
  "linear_quantile xs q =
     (let sorted_xs = sort xs;
          pos = q * real (length xs - 1);
          lo = nat \<lfloor>pos\<rfloor>;
          hi = nat \<lceil>pos\<rceil>
      in sorted_xs ! lo + (pos - real lo) * (sorted_xs ! hi - sorted_xs ! lo))"

section \<open>Concrete inputs\<close>

text \<open>
  A small preset file, and the objects and overrides of the concrete examples. The names
  of the sections are those the source reads: \<open>estilo\<close>, \<open>tamanho\<close>, \<open>titulo\<close>,
  \<open>grafico\<close>.
\<close>

definition example_styles :: styles_file where
  "example_styles =
     [(''scatterplot'',
        [(''estilo'', [(''style'', PStr ''whitegrid'')]),
         (''grafico'', [(''alpha'', PNum 1), (''s'', PNum 40)])]),
      (''boxplot'',
        [(''titulo'', [(''label'', PStr ''Boxplot'')]),
         (''grafico'', [(''color'', PStr ''blue'')])]),
      (''heatmap'',
        [(''estilo'', [(''palette'', PStr ''deep'')]),
         (''tamanho'', [(''figsize'', PList [PNum 8, PNum 6])]),
         (''titulo'', [(''label'', PStr ''Heatmap'')]),
         (''grafico'', [(''annot'', PBool True), (''x'', PStr ''auto''), (''y'', PStr ''auto'')])])]"

definition example_scatterplot :: "(string \<times> pydict) list" where
  "example_scatterplot =
     [(''estilo'', [(''style'', PStr ''whitegrid'')]),
      (''grafico'', [(''alpha'', PNum 1), (''s'', PNum 40)])]"

definition example_boxplot :: "(string \<times> pydict) list" where
  "example_boxplot =
     [(''titulo'', [(''label'', PStr ''Boxplot'')]), (''grafico'', [(''color'', PStr ''blue'')])]"

definition example_data :: pydict where
  "example_data =
     [(''data'', PFrame [(''outro'', [0, 0, 0, 0, 0]), (''valor'', [1, 2, 3, 4, 100])]),
      (''y'', PStr ''valor'')]"

text \<open>An object with the one section that \<open>quantidade_outliers\<close> reads, for a column.\<close>

definition column_object :: "real list \<Rightarrow> obj" where
  "column_object ys =
     [(''grafico'',
        Section [(''y'', PStr ''valor''),
                 (''data'', PFrame [(''outro'', [0, 0, 0, 0, 0]), (''valor'', ys)])])]"

text \<open>The decimal numbers 0.3, 0.4, 1.6, 1.8 and 3.9 as a column holds them.\<close>

definition decimal_column :: "real list" where
  "decimal_column = map fl [3 / 10, 4 / 10, 16 / 10, 18 / 10, 39 / 10]"

definition example_heatmap :: obj where
  "example_heatmap =
     [(''_My_styles__type_style'', Type_style ''heatmap''),
      (''estilo'', Section [(''palette'', PStr ''deep'')]),
      (''tamanho'', Section [(''figsize'', PList [PNum 8, PNum 6])]),
      (''titulo'', Section [(''label'', PStr ''Heatmap'')]),
      (''grafico'',
        Section [(''annot'', PBool True), (''x'', PStr ''auto''), (''y'', PStr ''auto''),
                 (''data'', PFrame [(''a'', [1, 2, 3]), (''b'', [2, 4, 7])])])]"

text \<open>
  A correlation matrix as the expression that computes it, so that the two pandas
  operations of the heatmap can be given to the model as they are, uninterpreted.
\<close>

datatype matrix_expr = Corr frame | Round_to matrix_expr int

section \<open>What the specification says, in its own words\<close>

text \<open>
  The scale the specification calls selected: the smallest unit of the ladder that
  passes the ratio test.
\<close>

definition smallest_scale :: "real \<Rightarrow> string \<Rightarrow> real \<Rightarrow> bool" where
  "smallest_scale mx s u \<longleftrightarrow>
     (s, u) \<in> set scale_dict \<and> ratio_test mx u \<and>
     (\<forall>(s', u') \<in> set scale_dict. u' < u \<longrightarrow> \<not> ratio_test mx u')"

text \<open>No scale of the ladder passes the ratio test.\<close>

definition no_scale :: "real \<Rightarrow> bool" where
  "no_scale mx \<longleftrightarrow> (\<forall>(s, u) \<in> set scale_dict. \<not> ratio_test mx u)"

text \<open>
  The specification's fallback suffix: the scale just before \<open>s\<close> in the ladder, and
  no suffix when \<open>s\<close> is the first one.
\<close>

fun spec_previous_scale :: "string list \<Rightarrow> string \<Rightarrow> string" where
  "spec_previous_scale (a # b # rest) s =
     (if s = a then [] else if s = b then a else spec_previous_scale (b # rest) s)"
| "spec_previous_scale _ s = []"

text \<open>
  The overrides name only sections that the preset does not have.
\<close>

definition only_unknown :: "(string \<times> pydict) list \<Rightarrow> overrides \<Rightarrow> bool" where
  "only_unknown sections kwargs \<longleftrightarrow>
     (\<forall>k \<in> set (map fst kwargs). k \<notin> set (map fst sections))"

text \<open>
  The IQR rule, in the arithmetic of the program: \<open>Q1\<close> and \<open>Q3\<close> are the quantiles
  0.25 and 0.75 of the column, \<open>IQR = Q3 - Q1\<close>, the bounds are \<open>Q1 - 1.5 * IQR\<close> and
  \<open>Q3 + 1.5 * IQR\<close>, each operation giving a binary64 number, and an outlier is a
  value strictly below the lower bound or strictly above the upper one.
\<close>

definition iqr_bounds :: "real \<Rightarrow> real \<Rightarrow> real \<times> real" where
  "iqr_bounds q1 q3 =
     (let iqr = fl (q3 - q1) in (fl (q1 - fl (3 / 2 * iqr)), fl (q3 + fl (3 / 2 * iqr))))"

definition iqr_outlier_count :: "(real list \<Rightarrow> real \<Rightarrow> real) \<Rightarrow> real list \<Rightarrow> nat" where
  "iqr_outlier_count quantile ys =
     (let (lower, upper) = iqr_bounds (quantile ys (1 / 4)) (quantile ys (3 / 4))
      in length (filter (\<lambda>v. v < lower \<or> upper < v) ys))"

section \<open>Evaluation lemmas\<close>

lemma show_nat_small: "n < 10 \<Longrightarrow> show_nat n = [digits ! n]"
  by (simp add: show_nat.simps)

lemma show_nat_big:
  "\<not> n < 10 \<Longrightarrow> show_nat n = show_nat (n div 10) @ [digits ! (n mod 10)]"
  by (subst show_nat.simps) simp

lemmas fmt_eval = fmt0_def round_half_even_def Let_def show_nat_small show_nat_big digits_def

lemma binade_up:
  "0 < n \<Longrightarrow> 2 ^ 53 \<le> \<bar>x\<bar> \<Longrightarrow> binade n x e = binade (n - 1) (x / 2) (e + 1)"
  by (cases n) simp_all

lemma binade_down:
  "0 < n \<Longrightarrow> \<bar>x\<bar> < 2 ^ 52 \<Longrightarrow> binade n x e = binade (n - 1) (x * 2) (e - 1)"
  by (cases n) simp_all

lemma binade_stop:
  "0 < n \<Longrightarrow> 2 ^ 52 \<le> \<bar>x\<bar> \<Longrightarrow> \<bar>x\<bar> < 2 ^ 53 \<Longrightarrow> binade n x e = e"
  by (cases n) simp_all

lemmas fl_eval = fl_def pow2_def binade_up binade_down binade_stop round_half_even_def Let_def

text \<open>The integer that \<open>.0f\<close> prints is a nearest one, and the even one at a tie.\<close>

lemma round_half_even_tie: "\<bar>of_int (round_half_even x) - x\<bar> < 1 / 2 \<or> even (round_half_even x)"
proof -
  have "of_int \<lfloor>x\<rfloor> \<le> x" "x < of_int \<lfloor>x\<rfloor> + 1"
    by linarith+
  then show ?thesis
    by (auto simp: round_half_even_def Let_def)
qed

lemma round_half_even_nearest: "\<bar>of_int (round_half_even x) - x\<bar> \<le> 1 / 2"
proof -
  have "of_int \<lfloor>x\<rfloor> \<le> x" "x < of_int \<lfloor>x\<rfloor> + 1"
    by linarith+
  then show ?thesis
    by (auto simp: round_half_even_def Let_def)
qed

section \<open>Properties of format_ticks\<close>

lemma set_scale_dict:
  "(s, u) \<in> set scale_dict \<longleftrightarrow>
     (s = ''mil'' \<and> u = 1000) \<or> (s = ''MM'' \<and> u = 1000000) \<or>
     (s = ''B'' \<and> u = 1000000000) \<or> (s = ''T'' \<and> u = 1000000000000)"
  by (auto simp: scale_dict_def)

lemma smaller_fail:
  "(\<forall>(s', u') \<in> set scale_dict. u' < u \<longrightarrow> \<not> ratio_test mx u') \<longleftrightarrow>
     (1000 < u \<longrightarrow> \<not> ratio_test mx 1000) \<and>
     (1000000 < u \<longrightarrow> \<not> ratio_test mx 1000000) \<and>
     (1000000000 < u \<longrightarrow> \<not> ratio_test mx 1000000000) \<and>
     (1000000000000 < u \<longrightarrow> \<not> ratio_test mx 1000000000000)"
  by (simp add: scale_dict_def)

lemma smallest_scale_cases:
  assumes "smallest_scale mx s u"
  shows "(s = ''mil'' \<and> u = 1000 \<and> ratio_test mx 1000) \<or>
     (s = ''MM'' \<and> u = 1000000 \<and> ratio_test mx 1000000 \<and> \<not> ratio_test mx 1000) \<or>
     (s = ''B'' \<and> u = 1000000000 \<and> ratio_test mx 1000000000 \<and>
        \<not> ratio_test mx 1000000 \<and> \<not> ratio_test mx 1000) \<or>
     (s = ''T'' \<and> u = 1000000000000 \<and> ratio_test mx 1000000000000 \<and>
        \<not> ratio_test mx 1000000000 \<and> \<not> ratio_test mx 1000000 \<and> \<not> ratio_test mx 1000)"
proof -
  from assms have mem: "(s, u) \<in> set scale_dict" and ok: "ratio_test mx u"
    and sm: "(1000 < u \<longrightarrow> \<not> ratio_test mx 1000) \<and>
     (1000000 < u \<longrightarrow> \<not> ratio_test mx 1000000) \<and>
     (1000000000 < u \<longrightarrow> \<not> ratio_test mx 1000000000) \<and>
     (1000000000000 < u \<longrightarrow> \<not> ratio_test mx 1000000000000)"
    unfolding smallest_scale_def smaller_fail by blast+
  from mem consider "s = ''mil'' \<and> u = 1000" | "s = ''MM'' \<and> u = 1000000"
    | "s = ''B'' \<and> u = 1000000000" | "s = ''T'' \<and> u = 1000000000000"
    unfolding set_scale_dict by blast
  then show ?thesis
  proof cases
    case 1 with ok show ?thesis by simp
  next
    case 2 with ok sm show ?thesis by simp
  next
    case 3 with ok sm show ?thesis by simp
  next
    case 4 with ok sm show ?thesis by simp
  qed
qed

lemma format_loop_none:
  "\<forall>(s, u) \<in> set xs. \<not> ratio_test mx u \<Longrightarrow> format_loop value mx xs = Inr (fmt0 value)"
  by (induction xs) auto

lemma format_loop_mil:
  "ratio_test mx 1000 \<Longrightarrow>
   format_loop value mx scale_dict =
     Inr (if value / 1000 < 1 then fmt0 value else fmt0 (value / 1000) @ ''mil'')"
  by (simp add: scale_dict_def)

lemma format_loop_MM:
  "\<not> ratio_test mx 1000 \<Longrightarrow> ratio_test mx 1000000 \<Longrightarrow>
   format_loop value mx scale_dict =
     Inr (if value / 1000000 < 1 then fmt0 value else fmt0 (value / 1000000) @ ''MM'')"
  by (simp add: scale_dict_def)

lemma format_loop_B:
  "\<not> ratio_test mx 1000 \<Longrightarrow> \<not> ratio_test mx 1000000 \<Longrightarrow> ratio_test mx 1000000000 \<Longrightarrow>
   format_loop value mx scale_dict =
     Inr (if value / 1000000000 < 1 then fmt0 value @ ''MM''
          else fmt0 (value / 1000000000) @ ''B'')"
  by (simp add: scale_dict_def)

lemma format_loop_T:
  "\<not> ratio_test mx 1000 \<Longrightarrow> \<not> ratio_test mx 1000000 \<Longrightarrow> \<not> ratio_test mx 1000000000 \<Longrightarrow>
   ratio_test mx 1000000000000 \<Longrightarrow>
   format_loop value mx scale_dict =
     Inr (if value / 1000000000000 < 1 then fmt0 value @ ''B''
          else fmt0 (value / 1000000000000) @ ''T'')"
  by (simp add: scale_dict_def)

text \<open>\<open>format_ticks\<close> raises for no value and no max.\<close>

lemma format_ticks_returns: "\<exists>s. format_ticks value mx p = Inr s"
proof -
  let ?m = "case mx of None \<Rightarrow> value | Some m \<Rightarrow> m"
  consider "ratio_test ?m 1000"
    | "\<not> ratio_test ?m 1000" "ratio_test ?m 1000000"
    | "\<not> ratio_test ?m 1000" "\<not> ratio_test ?m 1000000" "ratio_test ?m 1000000000"
    | "\<not> ratio_test ?m 1000" "\<not> ratio_test ?m 1000000" "\<not> ratio_test ?m 1000000000"
      "ratio_test ?m 1000000000000"
    | "\<not> ratio_test ?m 1000" "\<not> ratio_test ?m 1000000" "\<not> ratio_test ?m 1000000000"
      "\<not> ratio_test ?m 1000000000000"
    by blast
  then show ?thesis
  proof cases
    case 1
    then show ?thesis by (simp add: format_ticks_def format_loop_mil)
  next
    case 2
    then show ?thesis by (simp add: format_ticks_def format_loop_MM)
  next
    case 3
    then show ?thesis by (simp add: format_ticks_def format_loop_B)
  next
    case 4
    then show ?thesis by (simp add: format_ticks_def format_loop_T)
  next
    case 5
    then have "\<forall>(s, u) \<in> set scale_dict. \<not> ratio_test ?m u"
      by (simp add: scale_dict_def)
    then show ?thesis by (simp add: format_ticks_def format_loop_none)
  qed
qed

text \<open>
  Claim C1, as the specification states it: when the selected scale \<open>s\<close> gives
  \<open>value / unit(s) < 1\<close>, the result is the raw value with no decimals followed by the
  suffix of the scale before \<open>s\<close> in the ladder, and by no suffix only when \<open>s\<close> is
  \<open>mil\<close>. The source takes the previous scale only when its position is greater than
  0 (\<open>index > 0\<close>), so \<open>mil\<close> is never a fallback suffix: for \<open>value = 500000\<close> and
  \<open>max = 2000000\<close> the selected scale is \<open>MM\<close> and the result is \<open>500000\<close>, where
  the claim gives \<open>500000mil\<close>.
\<close>

theorem format_ticks_fallback_counterexample:
  "smallest_scale 2000000 ''MM'' 1000000 \<and> (500000::real) / 1000000 < 1 \<and>
   format_ticks 500000 (Some 2000000) () = Inr ''500000'' \<and>
   fmt0 500000 @ spec_previous_scale (map fst scale_dict) ''MM'' = ''500000mil''"
proof -
  have r: "ratio_test 2000000 1000000" "\<not> ratio_test 2000000 1000"
    by (simp_all add: ratio_test_def)
  have s: "smallest_scale 2000000 ''MM'' 1000000"
    using r by (simp add: smallest_scale_def scale_dict_def)
  have f: "fmt0 500000 = ''500000''"
    by (simp add: fmt_eval)
  have "format_ticks 500000 (Some 2000000) () = Inr ''500000''"
    using r f by (simp add: format_ticks_def format_loop_MM)
  with s f show ?thesis
    by (simp add: scale_dict_def)
qed

text \<open>
  Claim C1, amended: for a nonzero value, when the selected scale \<open>s\<close> gives
  \<open>value / unit(s) < 1\<close>, the result is the raw value with no decimals, followed by no
  suffix when \<open>s\<close> is \<open>mil\<close> or \<open>MM\<close>, and by the suffix of the scale before
  \<open>s\<close> when \<open>s\<close> is \<open>B\<close> or \<open>T\<close>. So the value 1234567.5 with \<open>max = 2000000000\<close>
  gives \<open>1234568MM\<close>, and the value 0.5 with \<open>max = 1000\<close> gives \<open>0\<close>.
\<close>

theorem format_ticks_fallback:
  "(smallest_scale (case mx of None \<Rightarrow> value | Some m \<Rightarrow> m) s u \<and> value \<noteq> 0 \<and> value / u < 1
     \<longrightarrow> format_ticks value mx p =
          Inr (fmt0 value @
               (if s = ''MM'' then [] else spec_previous_scale (map fst scale_dict) s))) \<and>
   format_ticks (2469135 / 2) (Some 2000000000) p = Inr ''1234568MM'' \<and>
   format_ticks (1 / 2) (Some 1000) p = Inr ''0''"
proof (intro conjI impI)
  let ?m = "case mx of None \<Rightarrow> value | Some m \<Rightarrow> m"
  assume a: "smallest_scale ?m s u \<and> value \<noteq> 0 \<and> value / u < 1"
  then have "smallest_scale ?m s u"
    by simp
  from smallest_scale_cases [OF this] a
  show "format_ticks value mx p =
          Inr (fmt0 value @
               (if s = ''MM'' then [] else spec_previous_scale (map fst scale_dict) s))"
    by (auto simp: format_ticks_def format_loop_mil format_loop_MM format_loop_B format_loop_T
        scale_dict_def)
next
  have "ratio_test 2000000000 1000000000" "\<not> ratio_test 2000000000 1000000"
    "\<not> ratio_test 2000000000 1000"
    by (simp_all add: ratio_test_def)
  then have "format_ticks (2469135 / 2) (Some 2000000000) p = Inr (fmt0 (2469135 / 2) @ ''MM'')"
    by (simp add: format_ticks_def format_loop_B)
  also have "fmt0 (2469135 / 2) = ''1234568''"
    by (simp add: fmt_eval)
  finally show "format_ticks (2469135 / 2) (Some 2000000000) p = Inr ''1234568MM''"
    by simp
next
  have "ratio_test 1000 1000"
    by (simp add: ratio_test_def)
  then have "format_ticks (1 / 2) (Some 1000) p = Inr (fmt0 (1 / 2))"
    by (simp add: format_ticks_def format_loop_mil)
  also have "fmt0 (1 / 2) = ''0''"
    by (simp add: fmt_eval)
  finally show "format_ticks (1 / 2) (Some 1000) p = Inr ''0''"
    by simp
qed

theorem format_ticks_fallback_witness:
  "smallest_scale (case Some 2000000000 of None \<Rightarrow> 2469135 / 2 | Some m \<Rightarrow> m) ''B'' 1000000000 \<and>
   (2469135 / 2 :: real) \<noteq> 0 \<and> (2469135 / 2 :: real) / 1000000000 < 1 \<and>
   format_ticks (2469135 / 2) (Some 2000000000) () =
     Inr (fmt0 (2469135 / 2) @ spec_previous_scale (map fst scale_dict) ''B'') \<and>
   fmt0 (2469135 / 2) @ spec_previous_scale (map fst scale_dict) ''B'' = ''1234568MM''"
proof -
  have h: "smallest_scale (case Some 2000000000 of None \<Rightarrow> 2469135 / 2 | Some m \<Rightarrow> m)
             ''B'' 1000000000 \<and>
           (2469135 / 2 :: real) \<noteq> 0 \<and> (2469135 / 2 :: real) / 1000000000 < 1"
    by (simp add: smallest_scale_def scale_dict_def ratio_test_def)
  have f: "fmt0 (2469135 / 2) = ''1234568''"
    by (simp add: fmt_eval)
  have g: "spec_previous_scale (map fst scale_dict) ''B'' = ''MM''"
    by (simp add: scale_dict_def)
  from format_ticks_fallback [of "2469135 / 2" "Some 2000000000" "''B''" 1000000000 "()"] h
  have "format_ticks (2469135 / 2) (Some 2000000000) () =
     Inr (fmt0 (2469135 / 2) @ spec_previous_scale (map fst scale_dict) ''B'')"
    by simp
  with h f g show ?thesis
    by simp
qed

text \<open>
  Claim C2: for every value and max, when \<open>s\<close> is the smallest scale of the ladder with
  \<open>0.1 <= max / unit(s) < 999\<close> and \<open>value / unit(s) >= 1\<close>, the result is
  \<open>value / unit(s)\<close> with no decimals followed by \<open>s\<close>; and
  \<open>format_ticks(1_500_000, max=1_500_000)\<close> is \<open>2MM\<close>.
\<close>

theorem format_ticks_scaled:
  "(smallest_scale (case mx of None \<Rightarrow> value | Some m \<Rightarrow> m) s u \<and> value / u \<ge> 1
      \<longrightarrow> format_ticks value mx p = Inr (fmt0 (value / u) @ s)) \<and>
   format_ticks 1500000 (Some 1500000) p = Inr ''2MM''"
proof (intro conjI impI)
  let ?m = "case mx of None \<Rightarrow> value | Some m \<Rightarrow> m"
  assume a: "smallest_scale ?m s u \<and> value / u \<ge> 1"
  then have nz: "value \<noteq> 0"
    by auto
  from a have ge: "\<not> value / u < 1"
    by simp
  from a have "smallest_scale ?m s u"
    by simp
  from smallest_scale_cases [OF this] ge nz
  show "format_ticks value mx p = Inr (fmt0 (value / u) @ s)"
    by (auto simp: format_ticks_def format_loop_mil format_loop_MM format_loop_B format_loop_T)
next
  have "ratio_test 1500000 1000000" "\<not> ratio_test 1500000 1000"
    by (simp_all add: ratio_test_def)
  then have "format_ticks 1500000 (Some 1500000) p = Inr (fmt0 (1500000 / 1000000) @ ''MM'')"
    by (simp add: format_ticks_def format_loop_MM)
  also have "fmt0 (1500000 / 1000000) = ''2''"
    by (simp add: fmt_eval)
  finally show "format_ticks 1500000 (Some 1500000) p = Inr ''2MM''"
    by simp
qed

theorem format_ticks_scaled_witness:
  "smallest_scale (case Some 20000 of None \<Rightarrow> 12500 | Some m \<Rightarrow> m) ''mil'' 1000 \<and>
   (12500::real) / 1000 \<ge> 1 \<and>
   format_ticks 12500 (Some 20000) () = Inr ''12mil''"
proof -
  have h: "smallest_scale (case Some 20000 of None \<Rightarrow> 12500 | Some m \<Rightarrow> m) ''mil'' 1000
      \<and> (12500::real) / 1000 \<ge> 1"
    by (simp add: smallest_scale_def scale_dict_def ratio_test_def)
  have f: "fmt0 (12500 / 1000) = ''12''"
    by (simp add: fmt_eval)
  from format_ticks_scaled [of 12500 "Some 20000" "''mil''" 1000 "()"] h f show ?thesis
    by simp
qed

text \<open>
  Claim C7: for every nonzero value and every max for which no scale of the ladder
  passes the ratio test, as is the case of every max below 100, the result is the value
  rounded to 0 decimals, with no suffix: the sign of a negative value, then the decimal
  digits of an integer nearest to the value, the even one at a tie. So
  \<open>format_ticks(50, max=50)\<close> is \<open>50\<close>, 7.9 gives \<open>8\<close>, 12.3 gives \<open>12\<close>,
  2.5 gives \<open>2\<close>, 3.5 gives \<open>4\<close>, -1.5 gives \<open>-2\<close> and -0.4 gives \<open>-0\<close>.
\<close>

theorem format_ticks_no_scale:
  "(value \<noteq> 0 \<and> no_scale (case mx of None \<Rightarrow> value | Some m \<Rightarrow> m)
      \<longrightarrow> format_ticks value mx p = Inr (fmt0 value) \<and>
          (\<exists>n. format_ticks value mx p =
                 Inr ((if value < 0 then ''-'' else []) @ show_nat (nat \<bar>n\<bar>)) \<and>
               \<bar>of_int n - value\<bar> \<le> 1 / 2 \<and> (\<bar>of_int n - value\<bar> < 1 / 2 \<or> even n))) \<and>
   (value \<noteq> 0 \<and> m < 100
      \<longrightarrow> no_scale m \<and> format_ticks value (Some m) p = Inr (fmt0 value)) \<and>
   format_ticks 50 (Some 50) p = Inr ''50'' \<and>
   format_ticks (79 / 10) (Some (79 / 10)) p = Inr ''8'' \<and>
   format_ticks (123 / 10) (Some 99) p = Inr ''12'' \<and>
   format_ticks (5 / 2) None p = Inr ''2'' \<and>
   format_ticks (7 / 2) None p = Inr ''4'' \<and>
   format_ticks (- 3 / 2) None p = Inr ''-2'' \<and>
   format_ticks (- 2 / 5) (Some 99) p = Inr ''-0''"
proof -
  have general: "format_ticks v mx' p = Inr (fmt0 v)"
    if "v \<noteq> 0" "no_scale (case mx' of None \<Rightarrow> v | Some m \<Rightarrow> m)" for v mx'
    using that by (simp add: format_ticks_def format_loop_none no_scale_def)
  have below: "no_scale m'" if "m' < 100" for m'
    using that by (auto simp: no_scale_def scale_dict_def ratio_test_def)
  have small: "no_scale v" if "\<bar>v\<bar> < 100" for v
    using that by (auto simp: no_scale_def scale_dict_def ratio_test_def)
  show ?thesis
  proof (intro conjI impI)
    assume a: "value \<noteq> 0 \<and> no_scale (case mx of None \<Rightarrow> value | Some m \<Rightarrow> m)"
    then show r: "format_ticks value mx p = Inr (fmt0 value)"
      by (simp add: general)
    have "format_ticks value mx p =
        Inr ((if value < 0 then ''-'' else []) @ show_nat (nat \<bar>round_half_even value\<bar>))"
      using r by (simp add: fmt0_def)
    then show "\<exists>n. format_ticks value mx p =
                 Inr ((if value < 0 then ''-'' else []) @ show_nat (nat \<bar>n\<bar>)) \<and>
               \<bar>of_int n - value\<bar> \<le> 1 / 2 \<and> (\<bar>of_int n - value\<bar> < 1 / 2 \<or> even n)"
      using round_half_even_nearest [of "value"] round_half_even_tie [of "value"] by blast
  next
    assume a: "value \<noteq> 0 \<and> m < 100"
    then show "no_scale m"
      by (simp add: below)
    with a show "format_ticks value (Some m) p = Inr (fmt0 value)"
      by (simp add: general)
  next
    have "format_ticks 50 (Some 50) p = Inr (fmt0 50)"
      by (simp add: general below)
    then show "format_ticks 50 (Some 50) p = Inr ''50''"
      by (simp add: fmt_eval)
  next
    have "format_ticks (79 / 10) (Some (79 / 10)) p = Inr (fmt0 (79 / 10))"
      by (simp add: general below)
    then show "format_ticks (79 / 10) (Some (79 / 10)) p = Inr ''8''"
      by (simp add: fmt_eval)
  next
    have "format_ticks (123 / 10) (Some 99) p = Inr (fmt0 (123 / 10))"
      by (simp add: general below)
    then show "format_ticks (123 / 10) (Some 99) p = Inr ''12''"
      by (simp add: fmt_eval)
  next
    have "format_ticks (5 / 2) None p = Inr (fmt0 (5 / 2))"
      by (simp add: general small)
    then show "format_ticks (5 / 2) None p = Inr ''2''"
      by (simp add: fmt_eval)
  next
    have "format_ticks (7 / 2) None p = Inr (fmt0 (7 / 2))"
      by (simp add: general small)
    then show "format_ticks (7 / 2) None p = Inr ''4''"
      by (simp add: fmt_eval)
  next
    have "format_ticks (- 3 / 2) None p = Inr (fmt0 (- 3 / 2))"
      by (simp add: general small)
    then show "format_ticks (- 3 / 2) None p = Inr ''-2''"
      by (simp add: fmt_eval)
  next
    have "format_ticks (- 2 / 5) (Some 99) p = Inr (fmt0 (- 2 / 5))"
      by (simp add: general below)
    then show "format_ticks (- 2 / 5) (Some 99) p = Inr ''-0''"
      by (simp add: fmt_eval)
  qed
qed

theorem format_ticks_no_scale_witness:
  "(79 / 10 :: real) \<noteq> 0 \<and> no_scale (case None of None \<Rightarrow> 79 / 10 | Some m \<Rightarrow> m) \<and>
   (99::real) < 100 \<and>
   format_ticks (79 / 10) None () = Inr ''8'' \<and> format_ticks (79 / 10) (Some 99) () = Inr ''8''"
proof -
  have h: "(79 / 10 :: real) \<noteq> 0 \<and> no_scale (case None of None \<Rightarrow> 79 / 10 | Some m \<Rightarrow> m)"
    by (simp add: no_scale_def scale_dict_def ratio_test_def)
  have f: "fmt0 (79 / 10) = ''8''"
    by (simp add: fmt_eval)
  from format_ticks_no_scale [of "79 / 10" None "()" 99] h f show ?thesis
    by simp
qed

text \<open>
  Claim C10: the result of \<open>format_ticks\<close> does not depend on its third argument,
  whatever the two third arguments are.
\<close>

theorem format_ticks_ignores_third:
  "format_ticks value mx p = format_ticks value mx q"
  by (simp add: format_ticks_def)

section \<open>Properties of truncate_label\<close>

lemma slice_to_nat: "slice_to xs (int n) = take n xs"
  by (simp add: slice_to_def)

text \<open>
  Claim C6: for every string \<open>s\<close> and every length \<open>L\<close> (a natural number),
  \<open>truncate_label(s, length=L)\<close> is \<open>s\<close> when \<open>len(s) <= L\<close>, and otherwise the
  first \<open>L\<close> characters of \<open>s\<close> followed by three dots, a string of length
  \<open>L + 3\<close>; the default length is 32.
\<close>

theorem truncate_label_spec:
  "truncate_label s (int L) = (if length s \<le> L then s else take L s @ ''...'') \<and>
   length (truncate_label s (int L)) = (if length s \<le> L then length s else L + 3) \<and>
   truncate_label_default s = truncate_label s (int 32)"
  by (simp add: truncate_label_def truncate_label_default_def slice_to_nat)

text \<open>
  The source takes any \<open>int\<close> for the length, and a negative one slices from the end
  of the label.
\<close>

lemma truncate_label_negative_length: "truncate_label ''abc'' (- 1) = ''ab...''"
  by (simp add: truncate_label_def slice_to_def)

section \<open>Properties of My_styles\<close>

lemma keys_load_sections:
  "fst ` set (load_sections sections self) = fst ` set self \<union> fst ` set sections"
proof (induction sections arbitrary: self)
  case Nil
  then show ?case by (simp add: load_sections_def)
next
  case (Cons p ps)
  obtain k v where p: "p = (k, v)" by (cases p)
  have "load_sections (p # ps) self = load_sections ps (setattr self k (Section v))"
    by (simp add: load_sections_def p)
  moreover have "fst ` set (setattr self k (Section v)) = insert k (fst ` set self)"
    using dom_update [of k "Section v" self] by (simp add: setattr_def)
  ultimately show ?case
    using Cons.IH [of "setattr self k (Section v)"] by (auto simp: p)
qed

lemma load_sections_type_style:
  "map_of (load_sections sections self) k = Some (Type_style s) \<Longrightarrow>
   map_of self k = Some (Type_style s)"
proof (induction sections arbitrary: self)
  case Nil
  then show ?case by (simp add: load_sections_def)
next
  case (Cons p ps)
  obtain c v where p: "p = (c, v)" by (cases p)
  have "load_sections (p # ps) self = load_sections ps (setattr self c (Section v))"
    by (simp add: load_sections_def p)
  with Cons have "map_of (setattr self c (Section v)) k = Some (Type_style s)"
    by simp
  then show ?case
    by (simp add: setattr_def update_conv' split: if_splits)
qed

lemma load_sections_other:
  "k \<notin> fst ` set sections \<Longrightarrow> map_of (load_sections sections self) k = map_of self k"
proof (induction sections arbitrary: self)
  case Nil
  then show ?case by (simp add: load_sections_def)
next
  case (Cons p ps)
  obtain c v where p: "p = (c, v)" by (cases p)
  have "load_sections (p # ps) self = load_sections ps (setattr self c (Section v))"
    by (simp add: load_sections_def p)
  with Cons show ?case
    by (simp add: p setattr_def update_conv')
qed

lemma load_sections_section:
  "k \<in> fst ` set sections \<Longrightarrow> \<exists>d. map_of (load_sections sections self) k = Some (Section d)"
proof (induction sections arbitrary: self)
  case Nil
  then show ?case by simp
next
  case (Cons p ps)
  obtain c v where p: "p = (c, v)" by (cases p)
  have step: "load_sections (p # ps) self = load_sections ps (setattr self c (Section v))"
    by (simp add: load_sections_def p)
  show ?case
  proof (cases "k \<in> fst ` set ps")
    case True
    with Cons.IH step show ?thesis
      by simp
  next
    case False
    with Cons.prems have "k = c"
      by (simp add: p)
    with False step show ?thesis
      by (simp add: load_sections_other setattr_def update_conv')
  qed
qed

lemma read_styles_fresh:
  "read_styles estilo (setattr [] type_style_attr (Type_style ts)) =
     (case map_of estilo ts of
        None \<Rightarrow> Inl (KeyError ts)
      | Some sections \<Rightarrow> Inr (load_sections sections [(type_style_attr, Type_style ts)]))"
  by (simp add: read_styles_def setattr_def getattr_def split: option.split)

lemma My_styles_init_loaded:
  "map_of estilo ts = Some sections \<Longrightarrow>
   My_styles_init estilo ts kwargs =
     update_style_for_dict (load_sections sections [(type_style_attr, Type_style ts)]) kwargs"
  by (simp add: My_styles_init_def read_styles_fresh and_then_def)

lemma update_style_absent:
  "\<forall>k \<in> set (map fst kwargs). k \<notin> set (map fst self) \<Longrightarrow>
   update_style_for_dict self kwargs = Inr self"
  by (induction kwargs) auto

lemma dict_update_lookup:
  "distinct (map fst other) \<Longrightarrow> map_of (dict_update d other) = map_of d ++ map_of other"
proof (induction other arbitrary: d)
  case Nil
  then show ?case by (simp add: dict_update_def)
next
  case (Cons p ps)
  obtain k v where p: "p = (k, v)" by (cases p)
  from Cons.prems have k: "k \<notin> fst ` set ps" and d: "distinct (map fst ps)"
    by (auto simp: p)
  have "dict_update d (p # ps) = dict_update (AList.update k v d) ps"
    by (simp add: dict_update_def p)
  then have "map_of (dict_update d (p # ps)) = (map_of d)(k \<mapsto> v) ++ map_of ps"
    using Cons.IH [OF d, of "AList.update k v d"] by (simp only: update_conv')
  also have "\<dots> = map_of d ++ map_of (p # ps)"
  proof
    fix x
    from k have "map_of ps k = None"
      by (simp add: map_of_eq_None_iff)
    then show "((map_of d)(k \<mapsto> v) ++ map_of ps) x = (map_of d ++ map_of (p # ps)) x"
      by (auto simp: p map_add_def split: option.splits)
  qed
  finally show ?case .
qed

lemma update_style_sections:
  assumes "distinct (map fst kwargs)"
    and "\<forall>k \<in> set (map fst kwargs). \<forall>s. map_of self k \<noteq> Some (Type_style s)"
  shows "\<exists>self'. update_style_for_dict self kwargs = Inr self' \<and>
     (\<forall>k. map_of self' k =
        (case map_of kwargs k of
           None \<Rightarrow> map_of self k
         | Some ov \<Rightarrow>
             (case map_of self k of
                Some (Section d) \<Rightarrow> Some (Section (dict_update d ov))
              | x \<Rightarrow> x)))"
  using assms
proof (induction kwargs arbitrary: self)
  case Nil
  then show ?case by simp
next
  case (Cons p rest)
  obtain c v where p: "p = (c, v)" by (cases p)
  from Cons.prems have dist: "distinct (map fst rest)" and c_rest: "map_of rest c = None"
    by (auto simp: p map_of_eq_None_iff)
  show ?case
  proof (cases "c \<in> set (map fst self)")
    case False
    then have none: "map_of self c = None"
      by (simp add: map_of_eq_None_iff)
    from Cons.prems have "\<forall>k \<in> set (map fst rest). \<forall>s. map_of self k \<noteq> Some (Type_style s)"
      by simp
    from Cons.IH [OF dist this] obtain self' where
      r: "update_style_for_dict self rest = Inr self'" and
      l: "\<forall>k. map_of self' k =
        (case map_of rest k of
           None \<Rightarrow> map_of self k
         | Some ov \<Rightarrow>
             (case map_of self k of
                Some (Section d) \<Rightarrow> Some (Section (dict_update d ov))
              | x \<Rightarrow> x))"
      by blast
    from False r have "update_style_for_dict self (p # rest) = Inr self'"
      by (simp add: p)
    moreover from l none c_rest have "\<forall>k. map_of self' k =
        (case map_of (p # rest) k of
           None \<Rightarrow> map_of self k
         | Some ov \<Rightarrow>
             (case map_of self k of
                Some (Section d) \<Rightarrow> Some (Section (dict_update d ov))
              | x \<Rightarrow> x))"
      by (simp add: p)
    ultimately show ?thesis by blast
  next
    case True
    then obtain a where a: "map_of self c = Some a"
      by (metis map_of_eq_None_iff not_None_eq set_map)
    with Cons.prems obtain d where d: "map_of self c = Some (Section d)"
      by (cases a) (auto simp: p)
    let ?self1 = "setattr self c (Section (dict_update d v))"
    have m1: "map_of ?self1 = (map_of self)(c \<mapsto> Section (dict_update d v))"
      by (simp add: setattr_def update_conv')
    from Cons.prems have "\<forall>k \<in> set (map fst rest). \<forall>s. map_of ?self1 k \<noteq> Some (Type_style s)"
      by (simp add: m1)
    from Cons.IH [OF dist this] obtain self' where
      r: "update_style_for_dict ?self1 rest = Inr self'" and
      l: "\<forall>k. map_of self' k =
        (case map_of rest k of
           None \<Rightarrow> map_of ?self1 k
         | Some ov \<Rightarrow>
             (case map_of ?self1 k of
                Some (Section d) \<Rightarrow> Some (Section (dict_update d ov))
              | x \<Rightarrow> x))"
      by blast
    from True d r have "update_style_for_dict self (p # rest) = Inr self'"
      by (simp add: p getattr_def)
    moreover from l d c_rest have "\<forall>k. map_of self' k =
        (case map_of (p # rest) k of
           None \<Rightarrow> map_of self k
         | Some ov \<Rightarrow>
             (case map_of self k of
                Some (Section d) \<Rightarrow> Some (Section (dict_update d ov))
              | x \<Rightarrow> x))"
      by (auto simp: p m1 split: option.splits attr.splits)
    ultimately show ?thesis by blast
  qed
qed

lemmas styles_eval = My_styles_init_def super_init_def read_styles_def setattr_def getattr_def
  and_then_def
  load_sections_def
  dict_update_def example_styles_def type_style_attr_def

text \<open>
  Claim C3, as the specification states it: overrides that name only sections absent from
  the preset are ignored and leave the profile as the preset gives it. The test of the
  source is \<open>chave in self.__dict__\<close>, and the instance holds one attribute that is
  no section, the private field \<open>_My_styles__type_style\<close>: an override of that name
  is not in the preset, passes the test, and \<open>update\<close> is then called on a \<open>str\<close>.
\<close>

theorem override_unknown_sections_counterexample:
  "map_of example_styles ''boxplot'' = Some example_boxplot \<and>
   only_unknown example_boxplot [(''_My_styles__type_style'', [])] \<and>
   My_styles_init example_styles ''boxplot'' [(''_My_styles__type_style'', [])] =
     Inl (AttributeError ''update'') \<and>
   My_styles_init example_styles ''boxplot'' [] =
     Inr [(''_My_styles__type_style'', Type_style ''boxplot''),
          (''titulo'', Section [(''label'', PStr ''Boxplot'')]),
          (''grafico'', Section [(''color'', PStr ''blue'')])]"
  by (simp add: styles_eval example_boxplot_def only_unknown_def)

text \<open>
  Claim C3, amended: overrides that name only sections absent from the preset, none of
  them the private attribute name \<open>_My_styles__type_style\<close>, are ignored: the
  construction succeeds and the object is the one built with no override, so no section
  is changed and none is added.
\<close>

theorem override_unknown_sections:
  "map_of estilo ts = Some sections \<and> only_unknown sections kwargs \<and>
   type_style_attr \<notin> set (map fst kwargs)
     \<longrightarrow> (\<exists>self. My_styles_init estilo ts [] = Inr self \<and>
                 My_styles_init estilo ts kwargs = Inr self)"
proof
  assume a: "map_of estilo ts = Some sections \<and> only_unknown sections kwargs \<and>
    type_style_attr \<notin> set (map fst kwargs)"
  let ?self = "load_sections sections [(type_style_attr, Type_style ts)]"
  from a have e: "map_of estilo ts = Some sections"
    by simp
  from a have "\<forall>k \<in> set (map fst kwargs). k \<notin> set (map fst ?self)"
    by (force simp: keys_load_sections only_unknown_def)
  then have "update_style_for_dict ?self kwargs = Inr ?self"
    by (rule update_style_absent)
  then have "My_styles_init estilo ts kwargs = Inr ?self"
    by (simp add: My_styles_init_loaded [OF e])
  moreover have "My_styles_init estilo ts [] = Inr ?self"
    by (simp add: My_styles_init_loaded [OF e])
  ultimately show "\<exists>self. My_styles_init estilo ts [] = Inr self \<and>
      My_styles_init estilo ts kwargs = Inr self"
    by blast
qed

theorem override_unknown_sections_witness:
  "map_of example_styles ''boxplot'' = Some example_boxplot \<and>
   only_unknown example_boxplot [(''eixos'', [(''xlabel'', PStr ''x'')])] \<and>
   type_style_attr \<notin> set (map fst [(''eixos'', [(''xlabel'', PStr ''x'')])]) \<and>
   My_styles_init example_styles ''boxplot'' [(''eixos'', [(''xlabel'', PStr ''x'')])] =
     Inr [(''_My_styles__type_style'', Type_style ''boxplot''),
          (''titulo'', Section [(''label'', PStr ''Boxplot'')]),
          (''grafico'', Section [(''color'', PStr ''blue'')])]"
proof -
  have h: "map_of example_styles ''boxplot'' = Some example_boxplot \<and>
    only_unknown example_boxplot [(''eixos'', [(''xlabel'', PStr ''x'')])] \<and>
    type_style_attr \<notin> set (map fst [(''eixos'', [(''xlabel'', PStr ''x'')])])"
    by (simp add: example_styles_def example_boxplot_def only_unknown_def type_style_attr_def)
  have e: "My_styles_init example_styles ''boxplot'' [] =
     Inr [(''_My_styles__type_style'', Type_style ''boxplot''),
          (''titulo'', Section [(''label'', PStr ''Boxplot'')]),
          (''grafico'', Section [(''color'', PStr ''blue'')])]"
    by (simp add: styles_eval)
  from override_unknown_sections
    [of example_styles "''boxplot''" example_boxplot "[(''eixos'', [(''xlabel'', PStr ''x'')])]"]
    h e
  show ?thesis
    by auto
qed

text \<open>
  Claim C4: an override for a section that the preset has is merged into that section
  as \<open>dict.update\<close> does: every key of the override ends with the override's value and
  every other key of the section keeps its preset value. The overrides are those of a
  keyword call (distinct names, each value a \<open>dict\<close>), and the private attribute name
  is among them only if the preset has a section of that name; the construction then
  succeeds. With the override \<open>grafico={"alpha": 0.5}\<close> the section has
  \<open>alpha = 0.5\<close> and keeps its other keys.
\<close>

theorem override_known_section:
  "map_of estilo ts = Some sections \<and> My_styles_init estilo ts [] = Inr base \<and>
   distinct (map fst kwargs) \<and>
   (type_style_attr \<in> set (map fst kwargs) \<longrightarrow> type_style_attr \<in> set (map fst sections)) \<and>
   map_of kwargs name = Some ov \<and> distinct (map fst ov) \<and>
   map_of base name = Some (Section d)
     \<longrightarrow> (\<exists>self d'. My_styles_init estilo ts kwargs = Inr self \<and>
                    map_of self name = Some (Section d') \<and>
                    map_of d' = map_of d ++ map_of ov)"
proof
  assume a: "map_of estilo ts = Some sections \<and> My_styles_init estilo ts [] = Inr base \<and>
   distinct (map fst kwargs) \<and>
   (type_style_attr \<in> set (map fst kwargs) \<longrightarrow> type_style_attr \<in> set (map fst sections)) \<and>
   map_of kwargs name = Some ov \<and> distinct (map fst ov) \<and>
   map_of base name = Some (Section d)"
  let ?self = "load_sections sections [(type_style_attr, Type_style ts)]"
  from a have e: "map_of estilo ts = Some sections"
    by simp
  from a have base: "base = ?self"
    by (simp add: My_styles_init_loaded [OF e])
  have "\<forall>k \<in> set (map fst kwargs). \<forall>s. map_of ?self k \<noteq> Some (Type_style s)"
  proof (intro ballI allI notI)
    fix k s
    assume k: "k \<in> set (map fst kwargs)" and ts: "map_of ?self k = Some (Type_style s)"
    then have "map_of [(type_style_attr, Type_style ts)] k = Some (Type_style s)"
      by (rule_tac load_sections_type_style)
    then have "k = type_style_attr"
      by (simp split: if_splits)
    with k a have "type_style_attr \<in> fst ` set sections"
      by simp
    then obtain d0 where "map_of ?self type_style_attr = Some (Section d0)"
      using load_sections_section by blast
    with \<open>k = type_style_attr\<close> ts show False
      by simp
  qed
  with a obtain self' where
    r: "update_style_for_dict ?self kwargs = Inr self'" and
    l: "\<forall>k. map_of self' k =
        (case map_of kwargs k of
           None \<Rightarrow> map_of ?self k
         | Some ov \<Rightarrow>
             (case map_of ?self k of
                Some (Section d) \<Rightarrow> Some (Section (dict_update d ov))
              | x \<Rightarrow> x))"
    using update_style_sections [of kwargs ?self] by blast
  from r have "My_styles_init estilo ts kwargs = Inr self'"
    by (simp add: My_styles_init_loaded [OF e])
  moreover from l a base have "map_of self' name = Some (Section (dict_update d ov))"
    by simp
  moreover from a have "map_of (dict_update d ov) = map_of d ++ map_of ov"
    by (simp add: dict_update_lookup)
  ultimately show "\<exists>self d'. My_styles_init estilo ts kwargs = Inr self \<and>
                    map_of self name = Some (Section d') \<and>
                    map_of d' = map_of d ++ map_of ov"
    by blast
qed

theorem override_known_section_witness:
  "map_of example_styles ''scatterplot'' = Some example_scatterplot \<and>
   My_styles_init example_styles ''scatterplot'' [] =
     Inr [(''_My_styles__type_style'', Type_style ''scatterplot''),
          (''estilo'', Section [(''style'', PStr ''whitegrid'')]),
          (''grafico'', Section [(''alpha'', PNum 1), (''s'', PNum 40)])] \<and>
   distinct (map fst [(''grafico'', [(''alpha'', PNum (1 / 2))])]) \<and>
   type_style_attr \<notin> set (map fst [(''grafico'', [(''alpha'', PNum (1 / 2))])]) \<and>
   map_of [(''grafico'', [(''alpha'', PNum (1 / 2))])] ''grafico'' =
     Some [(''alpha'', PNum (1 / 2))] \<and>
   distinct (map fst [(''alpha'', PNum (1 / 2))]) \<and>
   (\<exists>self d'.
      My_styles_init example_styles ''scatterplot'' [(''grafico'', [(''alpha'', PNum (1 / 2))])] =
        Inr self \<and>
      map_of self ''grafico'' = Some (Section d') \<and>
      map_of d' ''alpha'' = Some (PNum (1 / 2)) \<and> map_of d' ''s'' = Some (PNum 40))"
proof -
  let ?base = "[(''_My_styles__type_style'', Type_style ''scatterplot''),
          (''estilo'', Section [(''style'', PStr ''whitegrid'')]),
          (''grafico'', Section [(''alpha'', PNum 1), (''s'', PNum 40)])]"
  let ?kw = "[(''grafico'', [(''alpha'', PNum (1 / 2))])]"
  have h: "map_of example_styles ''scatterplot'' = Some example_scatterplot \<and>
    My_styles_init example_styles ''scatterplot'' [] = Inr ?base \<and>
    distinct (map fst ?kw) \<and> type_style_attr \<notin> set (map fst ?kw) \<and>
    map_of ?kw ''grafico'' = Some [(''alpha'', PNum (1 / 2))] \<and>
    distinct (map fst [(''alpha'', PNum (1 / 2))]) \<and>
    map_of ?base ''grafico'' = Some (Section [(''alpha'', PNum 1), (''s'', PNum 40)])"
    by (simp add: styles_eval example_scatterplot_def)
  from override_known_section
    [of example_styles "''scatterplot''" example_scatterplot ?base ?kw "''grafico''"
       "[(''alpha'', PNum (1 / 2))]" "[(''alpha'', PNum 1), (''s'', PNum 40)]"] h
  obtain self d' where
    r: "My_styles_init example_styles ''scatterplot'' ?kw = Inr self"
       "map_of self ''grafico'' = Some (Section d')"
       "map_of d' = map_of [(''alpha'', PNum 1), (''s'', PNum 40)] ++
                    map_of [(''alpha'', PNum (1 / 2))]"
    by blast
  from r(3) have "map_of d' ''alpha'' = Some (PNum (1 / 2)) \<and> map_of d' ''s'' = Some (PNum 40)"
    by simp
  with r h show ?thesis
    by blast
qed

section \<open>Properties of My_boxplot\<close>

lemma quantidade_outliers_count:
  "y_column self = Inr ys \<Longrightarrow>
   quantidade_outliers quantile self = Inr (iqr_outlier_count quantile ys)"
  by (simp add: quantidade_outliers_def and_then_def iqr_outlier_count_def iqr_bounds_def
      Let_def comp_def)

lemma y_column_found:
  "map_of self ''grafico'' = Some (Section g) \<Longrightarrow> map_of g ''data'' = Some (PFrame df) \<Longrightarrow>
   map_of g ''y'' = Some (PStr col) \<Longrightarrow> map_of df col = Some ys \<Longrightarrow>
   y_column self = Inr ys"
  by (simp add: y_column_def and_then_def getattr_def subscript_def)

lemma y_column_column_object: "y_column (column_object ys) = Inr ys"
  by (simp add: y_column_found column_object_def)

lemma linear_quantile_example:
  "linear_quantile [1, 2, 3, 4, 100] (1 / 4) = 2" "linear_quantile [1, 2, 3, 4, 100] (3 / 4) = 4"
  by (simp_all add: linear_quantile_def Let_def)

text \<open>The bounds for the quartiles 2 and 4 are -1 and 7, with no rounding.\<close>

lemma iqr_bounds_2_4: "iqr_bounds 2 4 = (- 1, 7)"
  by (simp add: iqr_bounds_def fl_eval)

text \<open>
  The column 0.3, 0.4, 1.6, 1.8, 3.9: its quartiles are the binary64 numbers next to 0.4
  and 1.8, and the upper bound, rounded three times, falls just below the binary64
  number next to 3.9, which is counted. In exact arithmetic the bound would be above it.
\<close>

lemma decimal_column_values:
  "decimal_column =
     [5404319552844595 / 18014398509481984, 3602879701896397 / 9007199254740992,
      3602879701896397 / 2251799813685248, 8106479329266893 / 4503599627370496,
      8782019273372467 / 2251799813685248]"
  by (simp add: decimal_column_def fl_eval)

lemma decimal_column_quartiles:
  "linear_quantile decimal_column (1 / 4) = 3602879701896397 / 9007199254740992"
  "linear_quantile decimal_column (3 / 4) = 8106479329266893 / 4503599627370496"
  by (simp_all add: decimal_column_values linear_quantile_def Let_def)

lemma decimal_column_bounds:
  "iqr_bounds (3602879701896397 / 9007199254740992) (8106479329266893 / 4503599627370496) =
     (- (3828059683264921 / 2251799813685248), 4391009636686233 / 1125899906842624)"
  by (simp add: iqr_bounds_def fl_eval)

lemma outlier_counts:
  "iqr_outlier_count linear_quantile [1, 2, 3, 4, 100] = 1"
  "iqr_outlier_count linear_quantile [- 1, 2, 3, 4, 7] = 0"
  "iqr_outlier_count linear_quantile [- 2, 2, 3, 4, 8] = 2"
  by (simp_all add: iqr_outlier_count_def iqr_bounds_2_4 linear_quantile_def Let_def)

lemma outlier_count_decimal: "iqr_outlier_count linear_quantile decimal_column = 1"
  by (simp add: iqr_outlier_count_def decimal_column_quartiles decimal_column_bounds)
    (simp add: decimal_column_values)

text \<open>A keyword \<open>type_style\<close> given to the box renderer is a \<open>TypeError\<close>.\<close>

lemma My_boxplot_init_type_style:
  "My_boxplot_init quantile estilo ((''type_style'', v) # kwargs) =
     Inl (TypeError ''got multiple values for keyword argument'')"
  by (simp add: My_boxplot_init_def super_init_def and_then_def)

text \<open>
  Claim C5: when the box renderer is constructed, the number of outliers of the
  \<open>y\<close> column by the IQR rule is computed, the arithmetic being that of binary64, and
  a newline, the words \<open>Numero de Outliers:\<close> (with U+00FA) and the count in decimal
  are appended to the label of the title; nothing else of the object changes. For the
  column 1, 2, 3, 4, 100 the quartiles are 2 and 4, the bounds -1 and 7 and the count 1;
  a value on a bound is not counted, outliers are counted on both sides, and for the
  column 0.3, 0.4, 1.6, 1.8, 3.9 the rounding of the upper bound makes 3.9 an outlier.
  A keyword \<open>type_style\<close> among the overrides is a \<open>TypeError\<close> of the call to the base
  constructor, and no object is built.
\<close>

theorem boxplot_outliers_title:
  "(''type_style'' \<notin> set (map fst kwargs) \<and>
    My_styles_init estilo ''boxplot'' kwargs = Inr self \<and>
    map_of self ''titulo'' = Some (Section t) \<and> map_of t ''label'' = Some (PStr label) \<and>
    map_of self ''grafico'' = Some (Section g) \<and> map_of g ''data'' = Some (PFrame df) \<and>
    map_of g ''y'' = Some (PStr col) \<and> map_of df col = Some ys
      \<longrightarrow> (\<exists>self' t'.
             My_boxplot_init quantile estilo kwargs = Inr self' \<and>
             map_of self' = (map_of self)(''titulo'' \<mapsto> Section t') \<and>
             map_of t' =
               (map_of t)(''label'' \<mapsto>
                  PStr (label @ [CHR 0x0A] @ ''N'' @ [CHR 0xFA] @ ''mero de Outliers:'' @
                        show_nat (iqr_outlier_count quantile ys))))) \<and>
   linear_quantile [1, 2, 3, 4, 100] (1 / 4) = 2 \<and>
   linear_quantile [1, 2, 3, 4, 100] (3 / 4) = 4 \<and>
   iqr_bounds 2 4 = (- 1, 7) \<and>
   quantidade_outliers linear_quantile (column_object [1, 2, 3, 4, 100]) = Inr 1 \<and>
   quantidade_outliers linear_quantile (column_object [- 1, 2, 3, 4, 7]) = Inr 0 \<and>
   quantidade_outliers linear_quantile (column_object [- 2, 2, 3, 4, 8]) = Inr 2 \<and>
   quantidade_outliers linear_quantile (column_object decimal_column) = Inr 1 \<and>
   outliers_text 0 = [CHR 0x0A] @ ''N'' @ [CHR 0xFA] @ ''mero de Outliers:0'' \<and>
   outliers_text 1 = [CHR 0x0A] @ ''N'' @ [CHR 0xFA] @ ''mero de Outliers:1'' \<and>
   outliers_text 12 = [CHR 0x0A] @ ''N'' @ [CHR 0xFA] @ ''mero de Outliers:12'' \<and>
   My_boxplot_init quantile estilo ((''type_style'', v) # kwargs) =
     Inl (TypeError ''got multiple values for keyword argument'')"
proof (intro conjI impI)
  assume a: "''type_style'' \<notin> set (map fst kwargs) \<and>
    My_styles_init estilo ''boxplot'' kwargs = Inr self \<and>
    map_of self ''titulo'' = Some (Section t) \<and> map_of t ''label'' = Some (PStr label) \<and>
    map_of self ''grafico'' = Some (Section g) \<and> map_of g ''data'' = Some (PFrame df) \<and>
    map_of g ''y'' = Some (PStr col) \<and> map_of df col = Some ys"
  let ?n = "iqr_outlier_count quantile ys"
  let ?text = "label @ [CHR 0x0A] @ ''N'' @ [CHR 0xFA] @ ''mero de Outliers:'' @ show_nat ?n"
  let ?t' = "AList.update ''label'' (PStr ?text) t"
  let ?self' = "setattr self ''titulo'' (Section ?t')"
  from a have s: "super_init estilo ''boxplot'' kwargs = Inr self"
    by (simp add: super_init_def)
  from a have "y_column self = Inr ys"
    by (simp add: y_column_found)
  then have n: "quantidade_outliers quantile self = Inr ?n"
    by (rule quantidade_outliers_count)
  from a s n have "My_boxplot_init quantile estilo kwargs = Inr ?self'"
    by (simp add: My_boxplot_init_def and_then_def getattr_def subscript_def outliers_text_def)
  moreover have "map_of ?self' = (map_of self)(''titulo'' \<mapsto> Section ?t')"
    by (simp add: setattr_def update_conv')
  moreover have "map_of ?t' = (map_of t)(''label'' \<mapsto> PStr ?text)"
    by (simp add: update_conv')
  ultimately show "\<exists>self' t'.
             My_boxplot_init quantile estilo kwargs = Inr self' \<and>
             map_of self' = (map_of self)(''titulo'' \<mapsto> Section t') \<and>
             map_of t' =
               (map_of t)(''label'' \<mapsto>
                  PStr (label @ [CHR 0x0A] @ ''N'' @ [CHR 0xFA] @ ''mero de Outliers:'' @
                        show_nat (iqr_outlier_count quantile ys)))"
    by blast
next
  show "linear_quantile [1, 2, 3, 4, 100] (1 / 4) = 2"
    by (rule linear_quantile_example)
  show "linear_quantile [1, 2, 3, 4, 100] (3 / 4) = 4"
    by (rule linear_quantile_example)
  show "iqr_bounds 2 4 = (- 1, 7)"
    by (rule iqr_bounds_2_4)
  show "quantidade_outliers linear_quantile (column_object [1, 2, 3, 4, 100]) = Inr 1"
    by (simp add: quantidade_outliers_count [OF y_column_column_object] outlier_counts)
  show "quantidade_outliers linear_quantile (column_object [- 1, 2, 3, 4, 7]) = Inr 0"
    by (simp add: quantidade_outliers_count [OF y_column_column_object] outlier_counts)
  show "quantidade_outliers linear_quantile (column_object [- 2, 2, 3, 4, 8]) = Inr 2"
    by (simp add: quantidade_outliers_count [OF y_column_column_object] outlier_counts)
  show "quantidade_outliers linear_quantile (column_object decimal_column) = Inr 1"
    by (simp add: quantidade_outliers_count [OF y_column_column_object] outlier_count_decimal)
  show "outliers_text 0 = [CHR 0x0A] @ ''N'' @ [CHR 0xFA] @ ''mero de Outliers:0''"
    by (simp add: outliers_text_def show_nat_small digits_def)
  show "outliers_text 1 = [CHR 0x0A] @ ''N'' @ [CHR 0xFA] @ ''mero de Outliers:1''"
    by (simp add: outliers_text_def show_nat_small digits_def)
  show "outliers_text 12 = [CHR 0x0A] @ ''N'' @ [CHR 0xFA] @ ''mero de Outliers:12''"
    by (simp add: outliers_text_def show_nat_small show_nat_big digits_def)
  show "My_boxplot_init quantile estilo ((''type_style'', v) # kwargs) =
     Inl (TypeError ''got multiple values for keyword argument'')"
    by (rule My_boxplot_init_type_style)
qed

theorem boxplot_outliers_title_witness:
  "''type_style'' \<notin> set (map fst [(''grafico'', example_data)]) \<and>
   My_styles_init example_styles ''boxplot'' [(''grafico'', example_data)] =
     Inr [(''_My_styles__type_style'', Type_style ''boxplot''),
          (''titulo'', Section [(''label'', PStr ''Boxplot'')]),
          (''grafico'', Section ((''color'', PStr ''blue'') # example_data))] \<and>
   (\<exists>self' t'.
      My_boxplot_init linear_quantile example_styles [(''grafico'', example_data)] = Inr self' \<and>
      map_of self' ''grafico'' = Some (Section ((''color'', PStr ''blue'') # example_data)) \<and>
      map_of self' ''titulo'' = Some (Section t') \<and>
      map_of t' ''label'' =
        Some (PStr (''Boxplot'' @ [CHR 0x0A] @ ''N'' @ [CHR 0xFA] @ ''mero de Outliers:1'')))"
proof -
  let ?self = "[(''_My_styles__type_style'', Type_style ''boxplot''),
          (''titulo'', Section [(''label'', PStr ''Boxplot'')]),
          (''grafico'', Section ((''color'', PStr ''blue'') # example_data))]"
  let ?df = "[(''outro'', [0, 0, 0, 0, 0]), (''valor'', [1, 2, 3, 4, 100])]"
  have h: "''type_style'' \<notin> set (map fst [(''grafico'', example_data)]) \<and>
    My_styles_init example_styles ''boxplot'' [(''grafico'', example_data)] = Inr ?self \<and>
    map_of ?self ''titulo'' = Some (Section [(''label'', PStr ''Boxplot'')]) \<and>
    map_of [(''label'', PStr ''Boxplot'')] ''label'' = Some (PStr ''Boxplot'') \<and>
    map_of ?self ''grafico'' = Some (Section ((''color'', PStr ''blue'') # example_data)) \<and>
    map_of ((''color'', PStr ''blue'') # example_data) ''data'' = Some (PFrame ?df) \<and>
    map_of ((''color'', PStr ''blue'') # example_data) ''y'' = Some (PStr ''valor'') \<and>
    map_of ?df ''valor'' = Some [1, 2, 3, 4, 100]"
    by (simp add: styles_eval example_data_def)
  note t = boxplot_outliers_title
    [of "[(''grafico'', example_data)]" example_styles ?self "[(''label'', PStr ''Boxplot'')]"
       "''Boxplot''" "(''color'', PStr ''blue'') # example_data" ?df "''valor''"
       "[1, 2, 3, 4, 100]" linear_quantile]
  from t h obtain self' t' where
    r: "My_boxplot_init linear_quantile example_styles [(''grafico'', example_data)] = Inr self'"
    "map_of self' = (map_of ?self)(''titulo'' \<mapsto> Section t')"
    "map_of t' =
       (map_of [(''label'', PStr ''Boxplot'')])(''label'' \<mapsto>
          PStr (''Boxplot'' @ [CHR 0x0A] @ ''N'' @ [CHR 0xFA] @ ''mero de Outliers:'' @
                show_nat (iqr_outlier_count linear_quantile [1, 2, 3, 4, 100])))"
    by blast
  have n: "show_nat (iqr_outlier_count linear_quantile [1, 2, 3, 4, 100]) = ''1''"
    by (simp add: outlier_counts show_nat_small digits_def)
  from r(2) have "map_of self' ''grafico'' =
      Some (Section ((''color'', PStr ''blue'') # example_data))"
    "map_of self' ''titulo'' = Some (Section t')"
    by simp_all
  moreover from r(3) n have "map_of t' ''label'' =
      Some (PStr (''Boxplot'' @ [CHR 0x0A] @ ''N'' @ [CHR 0xFA] @ ''mero de Outliers:1''))"
    by simp
  ultimately show ?thesis
    using h r(1) by blast
qed

section \<open>Properties of the renderers\<close>

lemma update_fresh: "k \<notin> fst ` set al \<Longrightarrow> AList.update k v al = al @ [(k, v)]"
  by (induction al) auto

lemma filter_loop:
  "distinct (map fst g) \<Longrightarrow> fst ` set acc \<inter> fst ` set g = {} \<Longrightarrow>
   fold (\<lambda>(key, v) filter_kwargs.
           if key \<notin> set my_list then AList.update key v filter_kwargs else filter_kwargs)
     g acc = acc @ filter (\<lambda>(key, v). key \<notin> set my_list) g"
proof (induction g arbitrary: acc)
  case Nil
  then show ?case by simp
next
  case (Cons p ps)
  obtain k v where p: "p = (k, v)" by (cases p)
  from Cons.prems have d: "distinct (map fst ps)" and k: "k \<notin> fst ` set ps"
    and ka: "k \<notin> fst ` set acc" and disj: "fst ` set acc \<inter> fst ` set ps = {}"
    by (auto simp: p)
  show ?case
  proof (cases "k \<in> set my_list")
    case True
    with Cons.IH [OF d disj] show ?thesis
      by (simp add: p)
  next
    case False
    from k disj have "fst ` set (acc @ [(k, v)]) \<inter> fst ` set ps = {}"
      by auto
    from Cons.IH [OF d this] False ka show ?thesis
      by (simp add: p update_fresh)
  qed
qed

lemma filter_kwargs_result:
  "map_of self ''grafico'' = Some (Section g) \<Longrightarrow> distinct (map fst g) \<Longrightarrow>
   My_headmap_filter_kwargs self =
     Inr (filter (\<lambda>(key, v). key \<notin> set [''data'', ''x'', ''y'']) g)"
  using filter_loop [of g "[]" "[''data'', ''x'', ''y'']"]
  by (simp add: My_headmap_filter_kwargs_def decorator_filter_kw_def getattr_def)

lemma palette_argument_empty:
  "palette_argument self =
     (case getattr self ''estilo'' of Inl e \<Rightarrow> Inl e | Inr estilo \<Rightarrow> Inr (PDict []))"
  by (simp add: palette_argument_def and_then_def value_hasattr_def dict_attribute_names_def
      str_attribute_names_def split: sum.split attr.split)

lemma filtered_lookup:
  "map_of (filter (\<lambda>(key, v). key \<notin> set my_list) g) key =
     (if key \<in> set my_list then None else map_of g key)"
  by (induction g) auto

text \<open>
  The drawing step by itself: it needs the section \<open>grafico\<close> only, with a table under
  \<open>data\<close>, the entries \<open>x\<close> and \<open>y\<close>, and no key that the call names itself.
\<close>

lemma heatmap_draw_call:
  assumes "map_of self ''grafico'' = Some (Section g)" and "distinct (map fst g)"
    and "map_of g ''data'' = Some (PFrame df)"
    and "map_of g ''x'' = Some x" and "map_of g ''y'' = Some y"
    and "map_of g ''xticklabels'' = None" and "map_of g ''yticklabels'' = None"
  shows "heatmap_draw corr round_to self =
     Inr (Sns_heatmap (round_to (corr df) 2) x y
            (filter (\<lambda>(key, v). key \<notin> set [''data'', ''x'', ''y'']) g))"
proof -
  let ?kw = "filter (\<lambda>(key, v). key \<notin> set [''data'', ''x'', ''y'']) g"
  from assms have fk: "My_headmap_filter_kwargs self = Inr ?kw"
    by (simp add: filter_kwargs_result)
  from assms have "''xticklabels'' \<notin> fst ` set g" "''yticklabels'' \<notin> fst ` set g"
    by (simp_all add: map_of_eq_None_iff)
  then have absent: "(''xticklabels'', v) \<notin> set g" "(''yticklabels'', v) \<notin> set g" for v
    by force+
  have clash: "\<not> list_ex (\<lambda>k. k \<in> set [''data'', ''xticklabels'', ''yticklabels''])
                        (map fst ?kw)"
    by (auto simp: list_ex_iff absent)
  from assms fk clash show ?thesis
    by (simp add: heatmap_draw_def and_then_def getattr_def subscript_def Let_def)
qed

lemmas render_eval = My_headmap_make_def pre_make_def heatmap_draw_def
  My_headmap_filter_kwargs_def decorator_filter_kw_def set_arguments_def palette_argument_def
  hasattr_def getattr_def subscript_def truthy_def kw_unpack_def value_hasattr_def
  dict_attribute_names_def str_attribute_names_def and_then_def Let_def

text \<open>
  Claim C8: the draw call of the heatmap renderer receives, as its data, the correlation
  matrix of the whole dataset rounded to 2 decimals; as tick labels, the entries \<open>x\<close>
  and \<open>y\<close> of the section \<open>grafico\<close>; and, as its other keywords, the items of
  \<open>grafico\<close> whose key is none of \<open>data\<close>, \<open>x\<close>, \<open>y\<close>, unchanged. The render
  reaches the call when the sections it reads are there and \<open>grafico\<close> has no key
  \<open>xticklabels\<close> or \<open>yticklabels\<close>, which would be passed twice.
\<close>

theorem heatmap_draw_arguments:
  "map_of self ''estilo'' = Some (Section est) \<and> map_of self ''tamanho'' = Some (Section tam) \<and>
   map_of self ''titulo'' = Some (Section tit) \<and> map_of self ''grafico'' = Some (Section g) \<and>
   distinct (map fst g) \<and> map_of g ''data'' = Some (PFrame df) \<and>
   map_of g ''x'' = Some x \<and> map_of g ''y'' = Some y \<and>
   map_of g ''xticklabels'' = None \<and> map_of g ''yticklabels'' = None
     \<longrightarrow> (\<exists>kw.
            heatmap_draw corr round_to self =
              Inr (Sns_heatmap (round_to (corr df) 2) x y kw) \<and>
            My_headmap_make corr round_to self =
              ([Sns_reset_defaults, Sns_set est, Plt_figure tam, Plt_title tit,
                Sns_heatmap (round_to (corr df) 2) x y kw,
                Sns_set_palette (PDict []), Plt_show], None) \<and>
            kw = filter (\<lambda>(key, v). key \<notin> {''data'', ''x'', ''y''}) g \<and>
            (\<forall>key. map_of kw key =
               (if key \<in> {''data'', ''x'', ''y''} then None else map_of g key)))"
proof
  assume a: "map_of self ''estilo'' = Some (Section est) \<and>
   map_of self ''tamanho'' = Some (Section tam) \<and>
   map_of self ''titulo'' = Some (Section tit) \<and> map_of self ''grafico'' = Some (Section g) \<and>
   distinct (map fst g) \<and> map_of g ''data'' = Some (PFrame df) \<and>
   map_of g ''x'' = Some x \<and> map_of g ''y'' = Some y \<and>
   map_of g ''xticklabels'' = None \<and> map_of g ''yticklabels'' = None"
  let ?kw = "filter (\<lambda>(key, v). key \<notin> set [''data'', ''x'', ''y'']) g"
  have look: "map_of ?kw key = (if key \<in> {''data'', ''x'', ''y''} then None else map_of g key)"
    for key
    using filtered_lookup [of "[''data'', ''x'', ''y'']" g key] by simp
  from a have draw:
    "heatmap_draw corr round_to self = Inr (Sns_heatmap (round_to (corr df) 2) x y ?kw)"
    by (simp add: heatmap_draw_call)
  from a have hs: "''estilo'' \<in> fst ` set self"
    by (metis map_of_eq_None_iff option.distinct(1))
  from a hs have s: "set_arguments self = Inr est"
    by (cases est) (simp_all add: set_arguments_def hasattr_def and_then_def getattr_def
        truthy_def kw_unpack_def)
  from a have p: "palette_argument self = Inr (PDict [])"
    by (simp add: palette_argument_empty getattr_def)
  from a s p draw have "My_headmap_make corr round_to self =
      ([Sns_reset_defaults, Sns_set est, Plt_figure tam, Plt_title tit,
        Sns_heatmap (round_to (corr df) 2) x y ?kw,
        Sns_set_palette (PDict []), Plt_show], None)"
    by (simp add: My_headmap_make_def pre_make_def and_then_def getattr_def kw_unpack_def)
  with look draw show "\<exists>kw.
            heatmap_draw corr round_to self =
              Inr (Sns_heatmap (round_to (corr df) 2) x y kw) \<and>
            My_headmap_make corr round_to self =
              ([Sns_reset_defaults, Sns_set est, Plt_figure tam, Plt_title tit,
                Sns_heatmap (round_to (corr df) 2) x y kw,
                Sns_set_palette (PDict []), Plt_show], None) \<and>
            kw = filter (\<lambda>(key, v). key \<notin> {''data'', ''x'', ''y''}) g \<and>
            (\<forall>key. map_of kw key =
               (if key \<in> {''data'', ''x'', ''y''} then None else map_of g key))"
    by simp
qed

theorem heatmap_draw_arguments_witness:
  "My_headmap_init example_styles
     [(''grafico'', [(''data'', PFrame [(''a'', [1, 2, 3]), (''b'', [2, 4, 7])])])] =
     Inr example_heatmap \<and>
   map_of example_heatmap ''grafico'' =
     Some (Section [(''annot'', PBool True), (''x'', PStr ''auto''), (''y'', PStr ''auto''),
                    (''data'', PFrame [(''a'', [1, 2, 3]), (''b'', [2, 4, 7])])]) \<and>
   My_headmap_make Corr Round_to example_heatmap =
     ([Sns_reset_defaults, Sns_set [(''palette'', PStr ''deep'')],
       Plt_figure [(''figsize'', PList [PNum 8, PNum 6])],
       Plt_title [(''label'', PStr ''Heatmap'')],
       Sns_heatmap (Round_to (Corr [(''a'', [1, 2, 3]), (''b'', [2, 4, 7])]) 2)
         (PStr ''auto'') (PStr ''auto'') [(''annot'', PBool True)],
       Sns_set_palette (PDict []), Plt_show], None)"
proof -
  let ?g = "[(''annot'', PBool True), (''x'', PStr ''auto''), (''y'', PStr ''auto''),
             (''data'', PFrame [(''a'', [1, 2, 3]), (''b'', [2, 4, 7])])]"
  have i: "My_headmap_init example_styles
     [(''grafico'', [(''data'', PFrame [(''a'', [1, 2, 3]), (''b'', [2, 4, 7])])])] =
     Inr example_heatmap"
    by (simp add: My_headmap_init_def styles_eval example_heatmap_def)
  have h: "map_of example_heatmap ''estilo'' = Some (Section [(''palette'', PStr ''deep'')]) \<and>
    map_of example_heatmap ''tamanho'' = Some (Section [(''figsize'', PList [PNum 8, PNum 6])]) \<and>
    map_of example_heatmap ''titulo'' = Some (Section [(''label'', PStr ''Heatmap'')]) \<and>
    map_of example_heatmap ''grafico'' = Some (Section ?g) \<and>
    distinct (map fst ?g) \<and>
    map_of ?g ''data'' = Some (PFrame [(''a'', [1, 2, 3]), (''b'', [2, 4, 7])]) \<and>
    map_of ?g ''x'' = Some (PStr ''auto'') \<and> map_of ?g ''y'' = Some (PStr ''auto'') \<and>
    map_of ?g ''xticklabels'' = None \<and> map_of ?g ''yticklabels'' = None"
    by (simp add: example_heatmap_def)
  from heatmap_draw_arguments
    [of example_heatmap "[(''palette'', PStr ''deep'')]" "[(''figsize'', PList [PNum 8, PNum 6])]"
       "[(''label'', PStr ''Heatmap'')]" ?g "[(''a'', [1, 2, 3]), (''b'', [2, 4, 7])]"
       "PStr ''auto''" "PStr ''auto''" Corr Round_to] h
  obtain kw where
    m: "My_headmap_make Corr Round_to example_heatmap =
      ([Sns_reset_defaults, Sns_set [(''palette'', PStr ''deep'')],
        Plt_figure [(''figsize'', PList [PNum 8, PNum 6])],
        Plt_title [(''label'', PStr ''Heatmap'')],
        Sns_heatmap (Round_to (Corr [(''a'', [1, 2, 3]), (''b'', [2, 4, 7])]) 2)
          (PStr ''auto'') (PStr ''auto'') kw,
        Sns_set_palette (PDict []), Plt_show], None)" and
    k: "kw = filter (\<lambda>(key, v). key \<notin> {''data'', ''x'', ''y''}) ?g"
    by blast
  from k have "kw = [(''annot'', PBool True)]"
    by simp
  with m i h show ?thesis
    by simp
qed

text \<open>
  Claim C9: after the drawing step and before the display, \<open>pre_make\<close> is to apply
  again the palette that the section \<open>estilo\<close> holds under \<open>palette\<close>, when it
  holds one. The source tests \<open>hasattr(self.estilo, 'palette')\<close>, and the attributes
  of a \<open>dict\<close> are its methods, not its keys: the test fails for every section, so
  the argument of \<open>sns.set_palette\<close> is the empty \<open>dict\<close> also when the section has
  a palette, here \<open>deep\<close>.
\<close>

theorem palette_not_reapplied:
  "subscript (Section [(''palette'', PStr ''deep'')]) ''palette'' = Inr (PStr ''deep'') \<and>
   value_hasattr (Section [(''palette'', PStr ''deep'')]) ''palette'' = False \<and>
   palette_argument example_heatmap = Inr (PDict []) \<and>
   pre_make (\<lambda>self. ([], None)) example_heatmap =
     ([Sns_reset_defaults :: matrix_expr call, Sns_set [(''palette'', PStr ''deep'')],
       Plt_figure [(''figsize'', PList [PNum 8, PNum 6])],
       Plt_title [(''label'', PStr ''Heatmap'')],
       Sns_set_palette (PDict []), Plt_show], None)"
  by (simp add: render_eval example_heatmap_def)

text \<open>In general, whatever the object is, the palette argument is the empty \<open>dict\<close>.\<close>

lemma palette_argument_no_palette:
  "palette_argument self = Inr p \<Longrightarrow> p = PDict []"
  by (simp add: palette_argument_empty split: sum.splits)

end
